theory Spec2Isabelle
  imports Complex_Main "HOL-Library.Word" "HOL-Library.Log_Nat"
begin

unbundle bit_operations_syntax

section \<open>Data model\<close>

type_synonym uint8_t = "8 word"
type_synonym uint16_t = "16 word"

text \<open>
  What an observer of the two-wire bus and of the serial console sees, in the order in
  which it happens.  \<open>BusWrite a bs stop\<close> is one write transaction to address \<open>a\<close>
  carrying the bytes \<open>bs\<close>, closed by a stop condition when \<open>stop\<close> holds and by a
  repeated start otherwise.  \<open>BusRead a n bs\<close> is one read of \<open>n\<close> requested bytes from
  address \<open>a\<close> in which the device delivered \<open>bs\<close>.  \<open>SerialOut\<close> is text printed
  without a line end, \<open>SerialLine\<close> text printed with one.
\<close>

datatype event =
    BusWrite uint8_t "uint8_t list" bool
  | BusRead uint8_t nat "uint8_t list"
  | SerialOut string
  | SerialLine string

text \<open>The private members of class \<open>RACM600\<close> (RACM600.h): the bus address only.\<close>

record RACM600 =
  address :: uint8_t

text \<open>
  The state the driver runs in: the object itself, the buffers of the shared \<open>Wire\<close>
  instance, the answers the device will give to the coming read requests (one byte list
  per request, in order), and everything observed so far.
\<close>

record world =
  this :: RACM600
  txAddress :: uint8_t
  txBuffer :: "uint8_t list"
  rxBuffer :: "uint8_t list"
  device :: "uint8_t list list"
  trace :: "event list"

subsection \<open>Register address map (RACM600.h)\<close>

definition RACM600_DEFAULT_ADDR :: uint8_t where "RACM600_DEFAULT_ADDR = 0x27"
definition RACM600_OPERATION :: uint8_t where "RACM600_OPERATION = 0x01"
definition RACM600_CLEAR_FAULTS :: uint8_t where "RACM600_CLEAR_FAULTS = 0x03"
definition RACM600_STATUS_WORD :: uint8_t where "RACM600_STATUS_WORD = 0x79"
definition RACM600_STATUS_VOUT :: uint8_t where "RACM600_STATUS_VOUT = 0x7A"
definition RACM600_STATUS_IOUT :: uint8_t where "RACM600_STATUS_IOUT = 0x7B"
definition RACM600_STATUS_INPUT :: uint8_t where "RACM600_STATUS_INPUT = 0x7C"
definition RACM600_STATUS_TEMPERATURE :: uint8_t where "RACM600_STATUS_TEMPERATURE = 0x7D"
definition RACM600_STATUS_CML :: uint8_t where "RACM600_STATUS_CML = 0x7E"
definition RACM600_READ_VOUT :: uint8_t where "RACM600_READ_VOUT = 0x8B"
definition RACM600_READ_IOUT :: uint8_t where "RACM600_READ_IOUT = 0x8C"
definition RACM600_READ_TEMPERATURE_1 :: uint8_t where "RACM600_READ_TEMPERATURE_1 = 0x8D"
definition RACM600_READ_TEMPERATURE_2 :: uint8_t where "RACM600_READ_TEMPERATURE_2 = 0x8E"

section \<open>The platform the driver calls\<close>

text \<open>
  Modelled from the spec: the bus transport (\<open>Wire\<close>) and the console (\<open>Serial\<close>) are
  the external collaborators of the spec's section 6 and belong to the Arduino core, so
  their code is not part of the repository.  The transport queues the bytes written
  between \<open>beginTransmission\<close> and \<open>endTransmission\<close> and sends them as one
  transaction; \<open>requestFrom\<close> asks the device for a number of bytes and keeps what
  arrived, at most that many, for \<open>available\<close> and \<open>read\<close>.
\<close>

definition Wire_beginTransmission :: "uint8_t \<Rightarrow> world \<Rightarrow> world" where
  "Wire_beginTransmission a s = s\<lparr>txAddress := a, txBuffer := []\<rparr>"

definition Wire_write :: "uint8_t \<Rightarrow> world \<Rightarrow> world" where
  "Wire_write b s = s\<lparr>txBuffer := txBuffer s @ [b]\<rparr>"

definition Wire_endTransmission :: "bool \<Rightarrow> world \<Rightarrow> world" where
  "Wire_endTransmission sendStop s =
     s\<lparr>txBuffer := [], trace := trace s @ [BusWrite (txAddress s) (txBuffer s) sendStop]\<rparr>"

definition delivered :: "nat \<Rightarrow> world \<Rightarrow> uint8_t list" where
  "delivered quantity s = (case device s of [] \<Rightarrow> [] | r # _ \<Rightarrow> take quantity r)"

definition Wire_requestFrom :: "uint8_t \<Rightarrow> nat \<Rightarrow> world \<Rightarrow> world" where
  "Wire_requestFrom a quantity s =
     s\<lparr>rxBuffer := delivered quantity s, device := tl (device s),
       trace := trace s @ [BusRead a quantity (delivered quantity s)]\<rparr>"

definition Wire_available :: "world \<Rightarrow> nat" where
  "Wire_available s = length (rxBuffer s)"

text \<open>\<open>Wire.read()\<close> returns an \<open>int\<close>: the next byte, or \<open>-1\<close> when none is left.\<close>

definition Wire_read :: "world \<Rightarrow> int \<times> world" where
  "Wire_read s =
     (case rxBuffer s of
        [] \<Rightarrow> (- 1, s)
      | b # bs \<Rightarrow> (uint b, s\<lparr>rxBuffer := bs\<rparr>))"

definition Serial_print :: "string \<Rightarrow> world \<Rightarrow> world" where
  "Serial_print str s = s\<lparr>trace := trace s @ [SerialOut str]\<rparr>"

definition Serial_println :: "string \<Rightarrow> world \<Rightarrow> world" where
  "Serial_println str s = s\<lparr>trace := trace s @ [SerialLine str]\<rparr>"

text \<open>
  \<open>Serial.println(n, HEX)\<close> prints the digits of the unsigned number \<open>n\<close> to base 16,
  most significant first, upper case, a single \<open>0\<close> for zero.
\<close>

fun hexNumber :: "nat \<Rightarrow> string" where
  "hexNumber n =
     (if n < 16 then [''0123456789ABCDEF'' ! n]
      else hexNumber (n div 16) @ [''0123456789ABCDEF'' ! (n mod 16)])"

declare hexNumber.simps [simp del]

definition Serial_println_HEX :: "nat \<Rightarrow> world \<Rightarrow> world" where
  "Serial_println_HEX n s = Serial_println (hexNumber n) s"

text \<open>
  Modelled from the spec: \<open>lowByte(w)\<close> and \<open>highByte(w)\<close> are macros of the Arduino
  core, not of the repository: \<open>(uint8_t) (w & 0xff)\<close> and \<open>(uint8_t) (w >> 8)\<close>, the
  low byte and the high byte that the spec's \<open>writeWord\<close> sends.
\<close>

definition lowByte :: "uint16_t \<Rightarrow> uint8_t" where
  "lowByte w = ucast (w AND 0xff)"

definition highByte :: "uint16_t \<Rightarrow> uint8_t" where
  "highByte w = ucast (drop_bit 8 w)"

subsection \<open>Floating-point arithmetic\<close>

text \<open>
  The C++ types \<open>float\<close> and \<open>double\<close> are binary floating-point formats (IEEE 754):
  a format has a precision (the number of significand bits, the hidden one included)
  and a least and a greatest exponent.  \<open>float\<close> is \<open>binary32\<close>; \<open>double\<close> is
  \<open>binary64\<close> on the 32-bit boards and \<open>binary32\<close> on the AVR boards, so the functions
  that compute in \<open>double\<close> take its format as a parameter.  A finite value of a format
  is the rational number it stands for; \<open>None\<close> is a result that is not finite.
\<close>

record fp_format =
  precision :: nat
  emin :: int
  emax :: int

definition binary32 :: fp_format where
  "binary32 = \<lparr>precision = 24, emin = - 126, emax = 127\<rparr>"

definition binary64 :: fp_format where
  "binary64 = \<lparr>precision = 53, emin = - 1022, emax = 1023\<rparr>"

text \<open>The integer nearest to \<open>x\<close>; of two equally near ones the even one.\<close>

definition rne :: "rat \<Rightarrow> int" where
  "rne x =
     (let f = \<lfloor>x\<rfloor>; d = x - of_int f
      in if d < 1 / 2 then f else if 1 / 2 < d then f + 1
         else if even f then f else f + 1)"

text \<open>For \<open>0 < x\<close>, the exponent \<open>e\<close> with \<open>2 ^ e \<le> x < 2 ^ (e + 1)\<close>.\<close>

definition ilog2 :: "rat \<Rightarrow> int" where
  "ilog2 x = (if 1 \<le> x then bitlen \<lfloor>x\<rfloor> - 1 else - bitlen (\<lceil>1 / x\<rceil> - 1))"

text \<open>
  Rounding a number to a format, to nearest with ties to even: the significand is
  rounded at the exponent of the number, or at the least exponent for a subnormal
  result; a result beyond the greatest finite value is not finite.  Every arithmetic
  operation and every conversion returns the exact result rounded in this way.
\<close>

definition fp_round :: "fp_format \<Rightarrow> rat \<Rightarrow> rat option" where
  "fp_round f x =
     (if x = 0 then Some 0
      else
        let e = max (ilog2 \<bar>x\<bar>) (emin f);
            q = e - int (precision f) + 1;
            y = sgn x * of_int (rne (\<bar>x\<bar> / 2 powi q)) * 2 powi q
        in if 2 powi (emax f + 1) \<le> \<bar>y\<bar> then None else Some y)"

section \<open>The driver (RACM600.cpp)\<close>

text \<open>The constructor stores the address; \<open>begin\<close> only starts the bus.\<close>

definition RACM600_new :: "uint8_t \<Rightarrow> RACM600" where
  "RACM600_new i2c_address = \<lparr>address = i2c_address\<rparr>"

text \<open>
  The state right after \<open>RACM600 psu; psu.begin();\<close> on a bus whose device will give
  the answers \<open>answers\<close>: nothing sent, nothing printed.
\<close>

definition power_on :: "uint8_t list list \<Rightarrow> world" where
  "power_on answers =
     \<lparr>this = RACM600_new RACM600_DEFAULT_ADDR, txAddress = 0, txBuffer = [],
      rxBuffer = [], device = answers, trace = []\<rparr>"

text \<open>A statement \<open>if (c) stmt;\<close> without an else branch.\<close>

definition if_stmt :: "bool \<Rightarrow> (world \<Rightarrow> world) \<Rightarrow> world \<Rightarrow> world" where
  "if_stmt c stmt s = (if c then stmt s else s)"

text \<open>A block \<open>{ stmt; ...; stmt; }\<close>: the statements run in order.\<close>

definition block :: "(world \<Rightarrow> world) list \<Rightarrow> world \<Rightarrow> world" where
  "block stmts s = fold (\<lambda>stmt. stmt) stmts s"

text \<open>
  \<open>readCommand\<close>: the two bytes read are stored in \<open>uint8_t\<close> variables and combined
  as \<open>(high << 8) | low\<close>; the result is returned as \<open>uint16_t\<close>.
\<close>

definition readCommand :: "uint8_t \<Rightarrow> world \<Rightarrow> uint16_t \<times> world" where
  "readCommand cmd s =
     (let s1 = Wire_beginTransmission (address (this s)) s;
          s2 = Wire_write cmd s1;
          s3 = Wire_endTransmission False s2;
          s4 = Wire_requestFrom (address (this s3)) 2 s3
      in if Wire_available s4 \<ge> 2 then
           (let (r1, s5) = Wire_read s4;
                low = (word_of_int r1 :: uint8_t);
                (r2, s6) = Wire_read s5;
                high = (word_of_int r2 :: uint8_t)
            in (word_of_int (push_bit 8 (uint high) OR uint low), s6))
         else (0, s4))"

definition writeCommand :: "uint8_t \<Rightarrow> uint16_t \<Rightarrow> world \<Rightarrow> world" where
  "writeCommand cmd val s =
     (let s1 = Wire_beginTransmission (address (this s)) s;
          s2 = Wire_write cmd s1;
          s3 = Wire_write (lowByte val) s2;
          s4 = Wire_write (highByte val) s3
      in Wire_endTransmission True s4)"

definition enableOutput :: "world \<Rightarrow> world" where
  "enableOutput s =
     (let s1 = Wire_beginTransmission (address (this s)) s;
          s2 = Wire_write RACM600_OPERATION s1;
          s3 = Wire_write 0x80 s2
      in Wire_endTransmission True s3)"

definition disableOutput :: "world \<Rightarrow> world" where
  "disableOutput s =
     (let s1 = Wire_beginTransmission (address (this s)) s;
          s2 = Wire_write RACM600_OPERATION s1;
          s3 = Wire_write 0x00 s2
      in Wire_endTransmission True s3)"

definition clearFaults :: "world \<Rightarrow> world" where
  "clearFaults s =
     (let s1 = Wire_beginTransmission (address (this s)) s;
          s2 = Wire_write RACM600_CLEAR_FAULTS s1
      in Wire_endTransmission True s2)"

text \<open>
  The expression \<open>raw * 0.01\<close> returned as \<open>float\<close>, as in \<open>readVoltage\<close> and
  \<open>readCurrent\<close>: \<open>raw\<close> is converted to \<open>double\<close>, multiplied in \<open>double\<close> by the
  \<open>double\<close> nearest to \<open>0.01\<close>, and the product is converted to \<open>float\<close>.
\<close>

definition times_0_01 :: "fp_format \<Rightarrow> uint16_t \<Rightarrow> rat option" where
  "times_0_01 dbl raw =
     Option.bind (fp_round dbl (of_int (uint raw))) (\<lambda>a.
     Option.bind (fp_round dbl (1 / 100)) (\<lambda>b.
     Option.bind (fp_round dbl (a * b)) (\<lambda>p.
     fp_round binary32 p)))"

definition readVoltage :: "fp_format \<Rightarrow> world \<Rightarrow> rat option \<times> world" where
  "readVoltage dbl s =
     (let (raw, s1) = readCommand RACM600_READ_VOUT s
      in (times_0_01 dbl raw, s1))"

definition readCurrent :: "fp_format \<Rightarrow> world \<Rightarrow> rat option \<times> world" where
  "readCurrent dbl s =
     (let (raw, s1) = readCommand RACM600_READ_IOUT s
      in (times_0_01 dbl raw, s1))"

text \<open>
  The temperature reads return \<open>raw\<close> converted to \<open>float\<close>.  The source defines a third
  one, \<open>readDCOUTPUTTemperature\<close>, with the macro \<open>RACM600_READ_TEMPERATURE_3\<close> in the
  place of its parameter list (RACM600.cpp, line 100), which is not a function
  definition of C++; it has no counterpart here.
\<close>

definition readAmbientTemperature :: "world \<Rightarrow> rat option \<times> world" where
  "readAmbientTemperature s =
     (let (raw, s1) = readCommand RACM600_READ_TEMPERATURE_1 s
      in (fp_round binary32 (of_int (uint raw)), s1))"

definition readACINPUTTemperature :: "world \<Rightarrow> rat option \<times> world" where
  "readACINPUTTemperature s =
     (let (raw, s1) = readCommand RACM600_READ_TEMPERATURE_2 s
      in (fp_round binary32 (of_int (uint raw)), s1))"

text \<open>
  \<open>readDetailedFault\<close>: the word read is narrowed to the \<open>uint8_t\<close> variable
  \<open>faultStatus\<close>; each of the five register blocks is guarded by its own comparison.
\<close>

definition readDetailedFault :: "uint8_t \<Rightarrow> string \<Rightarrow> world \<Rightarrow> world" where
  "readDetailedFault faultRegister faultType s =
     (let (w, s1) = readCommand faultRegister s;
          faultStatus = (ucast w :: uint8_t)
      in block [
        Serial_print faultType,
        Serial_print '' Details: 0x'',
        Serial_println_HEX (unat faultStatus),
        if_stmt (faultRegister = RACM600_STATUS_VOUT) (block [
          if_stmt (faultStatus AND 0x80 \<noteq> 0) (Serial_println '' - Output Overvoltage Fault''),
          if_stmt (faultStatus AND 0x40 \<noteq> 0) (Serial_println '' - Output Overvoltage Warning''),
          if_stmt (faultStatus AND 0x10 \<noteq> 0) (Serial_println '' - Output Undervoltage Warning''),
          if_stmt (faultStatus AND 0x08 \<noteq> 0) (Serial_println '' - Output Undervoltage Fault'')]),
        if_stmt (faultRegister = RACM600_STATUS_IOUT) (block [
          if_stmt (faultStatus AND 0x80 \<noteq> 0) (Serial_println '' - Output Overcurrent Fault''),
          if_stmt (faultStatus AND 0x40 \<noteq> 0) (Serial_println '' - Critical Constant Current Mode Fault''),
          if_stmt (faultStatus AND 0x20 \<noteq> 0) (Serial_println '' - Output Overcurrent Warning'')]),
        if_stmt (faultRegister = RACM600_STATUS_INPUT) (block [
          if_stmt (faultStatus AND 0x80 \<noteq> 0) (Serial_println '' - Input Overvoltage Fault''),
          if_stmt (faultStatus AND 0x40 \<noteq> 0) (Serial_println '' - Input Overvoltage Warning''),
          if_stmt (faultStatus AND 0x10 \<noteq> 0) (Serial_println '' - Input Undervoltage Warning''),
          if_stmt (faultStatus AND 0x08 \<noteq> 0) (Serial_println '' - Input Undervoltage Fault'')]),
        if_stmt (faultRegister = RACM600_STATUS_TEMPERATURE) (block [
          if_stmt (faultStatus AND 0x80 \<noteq> 0) (Serial_println '' - Overtemperature Fault''),
          if_stmt (faultStatus AND 0x40 \<noteq> 0) (Serial_println '' - Overtemperature Warning'')]),
        if_stmt (faultRegister = RACM600_STATUS_CML) (block [
          if_stmt (faultStatus AND 0x80 \<noteq> 0) (Serial_println '' - Invalid Command Received''),
          if_stmt (faultStatus AND 0x40 \<noteq> 0) (Serial_println '' - Invalid Data Received''),
          if_stmt (faultStatus AND 0x20 \<noteq> 0) (Serial_println '' - Packet Error Check Failed'')])
      ] s1)"

text \<open>
  \<open>readFaults\<close>: the summary read, the header line, the early return on zero, then
  one independent test per bit in the order of the source.
\<close>

definition readFaults :: "world \<Rightarrow> uint16_t \<times> world" where
  "readFaults s =
     (let (status, s1) = readCommand RACM600_STATUS_WORD s;
          s2 = Serial_print ''Fault Status: 0x'' s1;
          s3 = Serial_println_HEX (unat status) s2
      in if status = 0 then (status, Serial_println ''No faults detected.'' s3)
         else (status, block [
           if_stmt (status AND 0x0080 \<noteq> 0) (Serial_println ''FAULT: Device Busy''),
           if_stmt (status AND 0x0040 \<noteq> 0) (Serial_println ''FAULT: Power Output Off''),
           if_stmt (status AND 0x0020 \<noteq> 0) (block [
             Serial_println ''FAULT: Output Overvoltage'',
             readDetailedFault RACM600_STATUS_VOUT ''Output Voltage Fault'']),
           if_stmt (status AND 0x0010 \<noteq> 0) (block [
             Serial_println ''FAULT: Output Overcurrent'',
             readDetailedFault RACM600_STATUS_IOUT ''Output Current Fault'']),
           if_stmt (status AND 0x0008 \<noteq> 0) (block [
             Serial_println ''FAULT: Input Undervoltage'',
             readDetailedFault RACM600_STATUS_INPUT ''Input Fault'']),
           if_stmt (status AND 0x0004 \<noteq> 0) (block [
             Serial_println ''FAULT: Temperature Fault'',
             readDetailedFault RACM600_STATUS_TEMPERATURE ''Temperature Fault'']),
           if_stmt (status AND 0x0002 \<noteq> 0) (block [
             Serial_println ''FAULT: Communication Fault (CML)'',
             readDetailedFault RACM600_STATUS_CML ''Communication Fault'']),
           if_stmt (status AND 0x0001 \<noteq> 0) (Serial_println ''FAULT: Unknown Fault''),
           if_stmt (status AND 0x8000 \<noteq> 0) (Serial_println ''WARNING: Output Voltage Issue''),
           if_stmt (status AND 0x4000 \<noteq> 0) (Serial_println ''WARNING: Output Current or Power Issue''),
           if_stmt (status AND 0x2000 \<noteq> 0) (Serial_println ''WARNING: Input Voltage or Power Issue''),
           if_stmt (status AND 0x1000 \<noteq> 0) (Serial_println ''WARNING: Manufacturer-Specific Issue''),
           if_stmt (status AND 0x0800 \<noteq> 0) (Serial_println ''WARNING: Power Good Signal Lost''),
           if_stmt (status AND 0x0200 \<noteq> 0) (Serial_println ''WARNING: Fan or Airflow Issue''),
           if_stmt (status AND 0x0100 \<noteq> 0) (Serial_println ''WARNING: Other Status Warning'')
         ] s3))"

section \<open>Observations\<close>

text \<open>What a call added to the trace: the events of the state after it that the state
  before it did not have yet.\<close>

definition new_events :: "world \<Rightarrow> world \<Rightarrow> event list" where
  "new_events s s' = drop (length (trace s)) (trace s')"

text \<open>The lines printed with a line end, in order.\<close>

fun serial_lines :: "event list \<Rightarrow> string list" where
  "serial_lines [] = []"
| "serial_lines (SerialLine l # es) = l # serial_lines es"
| "serial_lines (_ # es) = serial_lines es"

text \<open>
  The bit tables of the five detail registers: per register, the bit positions that have
  a meaning and their descriptions, most significant first (the spec's section 4.4 gives
  the table of the output-voltage register in this form).  They are stated by bit
  position, to compare the driver's mask tests with.
\<close>

definition detail_bits :: "uint8_t \<Rightarrow> (nat \<times> string) list" where
  "detail_bits reg =
     (if reg = RACM600_STATUS_VOUT then
        [(7, '' - Output Overvoltage Fault''), (6, '' - Output Overvoltage Warning''),
         (4, '' - Output Undervoltage Warning''), (3, '' - Output Undervoltage Fault'')]
      else if reg = RACM600_STATUS_IOUT then
        [(7, '' - Output Overcurrent Fault''), (6, '' - Critical Constant Current Mode Fault''),
         (5, '' - Output Overcurrent Warning'')]
      else if reg = RACM600_STATUS_INPUT then
        [(7, '' - Input Overvoltage Fault''), (6, '' - Input Overvoltage Warning''),
         (4, '' - Input Undervoltage Warning''), (3, '' - Input Undervoltage Fault'')]
      else if reg = RACM600_STATUS_TEMPERATURE then
        [(7, '' - Overtemperature Fault''), (6, '' - Overtemperature Warning'')]
      else if reg = RACM600_STATUS_CML then
        [(7, '' - Invalid Command Received''), (6, '' - Invalid Data Received''),
         (5, '' - Packet Error Check Failed'')]
      else [])"

text \<open>
  What the console shows for the detail byte \<open>v\<close> of register \<open>reg\<close>: the header with
  the byte in hexadecimal, then one line per set bit of the register's table.
\<close>

definition detail_report :: "uint8_t \<Rightarrow> string \<Rightarrow> uint8_t \<Rightarrow> event list" where
  "detail_report reg faultType v =
     [SerialOut faultType, SerialOut '' Details: 0x'', SerialLine (hexNumber (unat v))]
     @ map SerialLine [d. (n, d) \<leftarrow> detail_bits reg, bit v n]"

text \<open>Appending events to the trace, the one effect of the console calls.\<close>

definition emit :: "event list \<Rightarrow> world \<Rightarrow> world" where
  "emit es s = s\<lparr>trace := trace s @ es\<rparr>"

text \<open>
  The register reads in a stretch of the trace: the list of command bytes read, in order,
  provided that all the bus traffic in it consists of word reads, each one a write of a
  single command byte closed by a repeated start and followed at once by a read of
  exactly 2 bytes from the same address; \<open>None\<close> when there is any other bus event.
\<close>

fun word_reads :: "event list \<Rightarrow> uint8_t list option" where
  "word_reads [] = Some []"
| "word_reads (SerialOut _ # es) = word_reads es"
| "word_reads (SerialLine _ # es) = word_reads es"
| "word_reads (BusWrite a [reg] False # BusRead a' n got # es) =
     (if a' = a \<and> n = 2 then map_option ((#) reg) (word_reads es) else None)"
| "word_reads _ = None"

text \<open>
  The category descriptions among the printed lines: the summary decoder starts them
  with \<open>FAULT: \<close> or \<open>WARNING: \<close>, the detail decoder starts its lines with \<open> - \<close>.
\<close>

definition is_category :: "string \<Rightarrow> bool" where
  "is_category l \<longleftrightarrow> take 7 l = ''FAULT: '' \<or> take 9 l = ''WARNING: ''"

definition category_lines :: "event list \<Rightarrow> string list" where
  "category_lines es = filter is_category (serial_lines es)"

text \<open>
  The spec's two-level fault model (section 4.4), stated as tables to compare
  \<open>readFaults\<close> with.  \<open>detail_fault_bits\<close>: the five fault bits of the status word
  that name a detail register.  \<open>status_word_descriptions\<close>: the description of each of
  the fifteen assigned bits, in the order in which they are reported: the eight fault
  bits \<open>0x0080\<close> to \<open>0x0001\<close>, then the seven warning bits; \<open>0x0400\<close> has no entry.
\<close>

definition detail_fault_bits :: "(uint16_t \<times> uint8_t) list" where
  "detail_fault_bits =
     [(0x0020, RACM600_STATUS_VOUT), (0x0010, RACM600_STATUS_IOUT),
      (0x0008, RACM600_STATUS_INPUT), (0x0004, RACM600_STATUS_TEMPERATURE),
      (0x0002, RACM600_STATUS_CML)]"

definition status_word_descriptions :: "(uint16_t \<times> string) list" where
  "status_word_descriptions =
     [(0x0080, ''FAULT: Device Busy''),
      (0x0040, ''FAULT: Power Output Off''),
      (0x0020, ''FAULT: Output Overvoltage''),
      (0x0010, ''FAULT: Output Overcurrent''),
      (0x0008, ''FAULT: Input Undervoltage''),
      (0x0004, ''FAULT: Temperature Fault''),
      (0x0002, ''FAULT: Communication Fault (CML)''),
      (0x0001, ''FAULT: Unknown Fault''),
      (0x8000, ''WARNING: Output Voltage Issue''),
      (0x4000, ''WARNING: Output Current or Power Issue''),
      (0x2000, ''WARNING: Input Voltage or Power Issue''),
      (0x1000, ''WARNING: Manufacturer-Specific Issue''),
      (0x0800, ''WARNING: Power Good Signal Lost''),
      (0x0200, ''WARNING: Fan or Airflow Issue''),
      (0x0100, ''WARNING: Other Status Warning'')]"

text \<open>
  The two tables in one, with the name that \<open>readFaults\<close> passes on for each detail
  register; the statement that \<open>readFaults\<close> runs per table entry; and what an entry
  contributes to the registers read and to the descriptions printed.
\<close>

definition status_word_table :: "(uint16_t \<times> string \<times> (uint8_t \<times> string) option) list" where
  "status_word_table =
     [(0x0080, ''FAULT: Device Busy'', None),
      (0x0040, ''FAULT: Power Output Off'', None),
      (0x0020, ''FAULT: Output Overvoltage'', Some (RACM600_STATUS_VOUT, ''Output Voltage Fault'')),
      (0x0010, ''FAULT: Output Overcurrent'', Some (RACM600_STATUS_IOUT, ''Output Current Fault'')),
      (0x0008, ''FAULT: Input Undervoltage'', Some (RACM600_STATUS_INPUT, ''Input Fault'')),
      (0x0004, ''FAULT: Temperature Fault'', Some (RACM600_STATUS_TEMPERATURE, ''Temperature Fault'')),
      (0x0002, ''FAULT: Communication Fault (CML)'', Some (RACM600_STATUS_CML, ''Communication Fault'')),
      (0x0001, ''FAULT: Unknown Fault'', None),
      (0x8000, ''WARNING: Output Voltage Issue'', None),
      (0x4000, ''WARNING: Output Current or Power Issue'', None),
      (0x2000, ''WARNING: Input Voltage or Power Issue'', None),
      (0x1000, ''WARNING: Manufacturer-Specific Issue'', None),
      (0x0800, ''WARNING: Power Good Signal Lost'', None),
      (0x0200, ''WARNING: Fan or Airflow Issue'', None),
      (0x0100, ''WARNING: Other Status Warning'', None)]"

fun dispatch :: "uint16_t \<Rightarrow> uint16_t \<times> string \<times> (uint8_t \<times> string) option \<Rightarrow> world \<Rightarrow> world" where
  "dispatch st (msk, desc, None) = if_stmt (st AND msk \<noteq> 0) (Serial_println desc)"
| "dispatch st (msk, desc, Some (reg, faultType)) =
     if_stmt (st AND msk \<noteq> 0) (block [Serial_println desc, readDetailedFault reg faultType])"

fun entry_regs :: "uint16_t \<Rightarrow> uint16_t \<times> string \<times> (uint8_t \<times> string) option \<Rightarrow> uint8_t list" where
  "entry_regs st (msk, desc, None) = []"
| "entry_regs st (msk, desc, Some (reg, faultType)) = (if st AND msk \<noteq> 0 then [reg] else [])"

fun entry_descs :: "uint16_t \<Rightarrow> uint16_t \<times> string \<times> (uint8_t \<times> string) option \<Rightarrow> string list" where
  "entry_descs st (msk, desc, detail) = (if st AND msk \<noteq> 0 then [desc] else [])"

section \<open>The platform primitives\<close>

lemmas Wire_defs =
  Wire_beginTransmission_def Wire_write_def Wire_endTransmission_def
  Wire_requestFrom_def Wire_available_def Wire_read_def

lemma new_events_append:
  "trace s' = trace s @ es \<Longrightarrow> new_events s s' = es"
  by (simp add: new_events_def)

lemma delivered_update [simp]:
  "delivered n (txAddress_update f1 s) = delivered n s"
  "delivered n (txBuffer_update f2 s) = delivered n s"
  "delivered n (rxBuffer_update f3 s) = delivered n s"
  "delivered n (trace_update f4 s) = delivered n s"
  by (simp_all add: delivered_def)

lemma delivered_cases:
  "delivered 2 s = [] \<or> (\<exists>a. delivered 2 s = [a]) \<or> (\<exists>a b. delivered 2 s = [a, b])"
proof (cases "device s")
  case Nil
  then show ?thesis by (simp add: delivered_def)
next
  case (Cons r rs)
  show ?thesis
  proof (cases r)
    case Nil
    with Cons show ?thesis by (simp add: delivered_def)
  next
    case one: (Cons a r')
    show ?thesis
    proof (cases r')
      case Nil
      with Cons one show ?thesis by (simp add: delivered_def)
    next
      case two: (Cons b r'')
      with Cons one show ?thesis by (simp add: delivered_def numeral_2_eq_2)
    qed
  qed
qed

lemma delivered_two:
  "device s = (low # high # extra) # rest \<Longrightarrow> delivered 2 s = [low, high]"
  by (simp add: delivered_def numeral_2_eq_2)

section \<open>Register codec\<close>

lemma promote_combine:
  "(word_of_int (push_bit 8 (uint (hi :: uint8_t)) OR uint (lo :: uint8_t)) :: uint16_t)
     = ucast lo OR push_bit 8 (ucast hi)"
  by (rule bit_word_eqI) (auto simp add: bit_simps)

text \<open>The whole effect of \<open>readCommand\<close>, by the number of bytes that arrived.\<close>

lemma readCommand_effect:
  "readCommand cmd s =
     ((case delivered 2 s of [lo, hi] \<Rightarrow> ucast lo OR push_bit 8 (ucast hi) | _ \<Rightarrow> 0),
      s\<lparr>txAddress := address (this s), txBuffer := [],
        rxBuffer := (case delivered 2 s of [lo, hi] \<Rightarrow> [] | r \<Rightarrow> r),
        device := tl (device s),
        trace := trace s @ [BusWrite (address (this s)) [cmd] False,
                            BusRead (address (this s)) 2 (delivered 2 s)]\<rparr>)"
  using delivered_cases [of s]
  by (elim disjE exE) (simp_all add: readCommand_def Wire_defs promote_combine Let_def)

lemma byte_mask: "(0xff :: uint16_t) = mask 8"
  by (simp add: mask_eq_exp_minus_1)

lemma lowByte_ucast: "lowByte w = ucast w"
  unfolding lowByte_def byte_mask by (rule bit_word_eqI) (auto simp add: bit_simps)

lemma unat_lowByte: "unat (lowByte w) = unat w mod 256"
  unfolding lowByte_ucast by (simp add: unsigned_ucast_eq take_bit_eq_mod)

lemma unat_highByte: "unat (highByte w) = unat w div 256"
proof -
  have "unat w < 2 ^ 16"
    using unsigned_less [of w] by simp
  then have "unat w div 256 < 256"
    by simp
  then show ?thesis
    unfolding highByte_def
    by (simp add: unsigned_ucast_eq unsigned_drop_bit_eq take_bit_eq_mod drop_bit_eq_div unat_div)
qed

lemma unat_combine:
  "unat (ucast (lo :: uint8_t) OR push_bit 8 (ucast (hi :: uint8_t)) :: uint16_t)
     = unat lo + 256 * unat hi"
proof -
  have lo: "unat lo < 2 ^ 8"
    using unsigned_less [of lo] by simp
  have hi: "unat hi < 2 ^ 8"
    using unsigned_less [of hi] by simp
  have "take_bit 8 (unat lo) AND push_bit 8 (unat hi) = 0"
    by (rule bit_eqI) (auto simp add: bit_simps)
  then have "unat lo AND push_bit 8 (unat hi) = 0"
    using lo by (simp add: take_bit_nat_eq_self)
  then have disj: "unat lo OR push_bit 8 (unat hi) = unat lo + push_bit 8 (unat hi)"
    by (simp add: disjunctive_add_eq_or)
  have a: "unat (ucast lo :: uint16_t) = unat lo"
    using lo by (simp add: unsigned_ucast_eq take_bit_nat_eq_self)
  have "push_bit 8 (unat hi) < 2 ^ 16"
    using hi by (simp add: push_bit_eq_mult)
  then have p16: "take_bit 16 (push_bit 8 (unat hi)) = push_bit 8 (unat hi)"
    by (simp add: take_bit_nat_eq_self)
  have h16: "take_bit 16 (unat hi) = unat hi"
    using hi by (simp add: take_bit_nat_eq_self)
  have b: "unat (push_bit 8 (ucast hi :: uint16_t)) = push_bit 8 (unat hi)"
    by (simp add: unsigned_push_bit_eq unsigned_ucast_eq h16 p16)
  have "unat (ucast lo OR push_bit 8 (ucast hi) :: uint16_t) = unat lo OR push_bit 8 (unat hi)"
    by (simp only: unsigned_or_eq a b)
  also have "\<dots> = unat lo + push_bit 8 (unat hi)"
    by (rule disj)
  also have "\<dots> = unat lo + 256 * unat hi"
    by (simp add: push_bit_eq_mult)
  finally show ?thesis .
qed

text \<open>
  Claim C2.  Whenever the device answers the read request with at least the two bytes
  \<open>low\<close>, \<open>high\<close> (in this order on the wire), \<open>readCommand cmd\<close> puts on the bus one
  write of the single byte \<open>cmd\<close>, closed by a repeated start, then one read that
  requests exactly 2 bytes, and nothing else; the word it returns is
  \<open>low | (high << 8)\<close>, that is \<open>low + 256 * high\<close>: the first byte received is the
  low-order byte.
\<close>

theorem readCommand_little_endian:
  assumes "device s = (low # high # extra) # rest"
  shows "fst (readCommand cmd s) = ucast low OR push_bit 8 (ucast high)
       \<and> unat (fst (readCommand cmd s)) = unat low + 256 * unat high
       \<and> new_events s (snd (readCommand cmd s)) =
           [BusWrite (address (this s)) [cmd] False,
            BusRead (address (this s)) 2 [low, high]]"
  using delivered_two [OF assms]
  by (simp add: readCommand_effect new_events_def unat_combine)

theorem readCommand_little_endian_witness:
  "device (power_on [[0x34, 0x12]]) = (0x34 # 0x12 # []) # []
   \<and> fst (readCommand 0x8B (power_on [[0x34, 0x12]])) = 0x1234
   \<and> new_events (power_on [[0x34, 0x12]]) (snd (readCommand 0x8B (power_on [[0x34, 0x12]]))) =
           [BusWrite 0x27 [0x8B] False, BusRead 0x27 2 [0x34, 0x12]]"
  using readCommand_little_endian [of "power_on [[0x34, 0x12]]" "0x34" "0x12" "[]" "[]" "0x8B"]
  by (simp add: power_on_def RACM600_new_def RACM600_DEFAULT_ADDR_def)

text \<open>
  Claim C4.  Whenever fewer than 2 bytes arrive for the read request, \<open>readCommand\<close>
  returns the word 0.  Its result type is the plain 16-bit word, so there is no separate
  error value, and the result is the same as the one obtained when the device answers
  with the two bytes 0, 0: the caller cannot tell a short read from a true zero reading.
\<close>

theorem readCommand_short_read:
  assumes "length (delivered 2 s) < 2"
  shows "fst (readCommand cmd s) = 0
       \<and> fst (readCommand cmd s) =
           fst (readCommand cmd (s\<lparr>device := [0, 0] # tl (device s)\<rparr>))"
  using assms delivered_cases [of s]
  by (auto simp add: readCommand_effect delivered_def numeral_2_eq_2)

theorem readCommand_short_read_witness:
  "length (delivered 2 (power_on [[0x34]])) < 2
   \<and> fst (readCommand 0x8B (power_on [[0x34]])) = 0
   \<and> fst (readCommand 0x8B (power_on [[0x34]])) = fst (readCommand 0x8B (power_on [[0, 0]]))"
  using readCommand_short_read [of "power_on [[0x34]]" "0x8B"]
  by (simp add: power_on_def delivered_def readCommand_effect)

text \<open>
  Claim C6.  For every 16-bit value, \<open>writeCommand cmd val\<close> puts on the bus exactly one
  write transaction, closed by a stop condition, that carries exactly three bytes in the
  order command byte, low byte of the value (\<open>val mod 256\<close>), high byte of the value
  (\<open>val div 256\<close>); it performs no read.
\<close>

theorem writeCommand_wire:
  "new_events s (writeCommand cmd val s) =
      [BusWrite (address (this s)) [cmd, lowByte val, highByte val] True]
   \<and> unat (lowByte val) = unat val mod 256
   \<and> unat (highByte val) = unat val div 256"
  by (simp add: writeCommand_def Wire_defs Let_def new_events_def unat_lowByte unat_highByte)

section \<open>Output control\<close>

text \<open>
  Claim C7.  \<open>enableOutput\<close> writes the one payload byte \<open>0x80\<close> (only bit 7 set) to
  the operation-control command \<open>0x01\<close>, \<open>disableOutput\<close> writes the one payload byte
  \<open>0x00\<close> to the same command, and \<open>enableOutput\<close> followed by \<open>disableOutput\<close> puts
  exactly these two write transactions on the bus, in this order, with no read.
\<close>

theorem output_control:
  "new_events s (enableOutput s) = [BusWrite (address (this s)) [0x01, 0x80] True]
   \<and> new_events s (disableOutput s) = [BusWrite (address (this s)) [0x01, 0x00] True]
   \<and> new_events s (disableOutput (enableOutput s)) =
       [BusWrite (address (this s)) [0x01, 0x80] True,
        BusWrite (address (this s)) [0x01, 0x00] True]
   \<and> (\<forall>n. bit (0x80 :: uint8_t) n \<longleftrightarrow> n = 7)"
proof -
  have "bit (0x80 :: uint8_t) n \<longleftrightarrow> n = 7" for n
    using bit_exp_iff [where ?'a = uint8_t, of 7 n] by (auto simp add: bit_simps)
  then show ?thesis
    by (simp add: enableOutput_def disableOutput_def Wire_defs Let_def new_events_def
        RACM600_OPERATION_def)
qed

text \<open>
  Claim C9.  \<open>clearFaults\<close> puts on the bus exactly one write transaction, which carries
  the command byte \<open>0x03\<close> and no payload byte; it performs no read and leaves the
  driver object as it was.
\<close>

theorem clearFaults_send_byte:
  "new_events s (clearFaults s) = [BusWrite (address (this s)) [0x03] True]
   \<and> this (clearFaults s) = this s"
  by (simp add: clearFaults_def Wire_defs Let_def new_events_def RACM600_CLEAR_FAULTS_def)

section \<open>Fault decoder\<close>

lemma Serial_emit:
  "Serial_print str = emit [SerialOut str]"
  "Serial_println str = emit [SerialLine str]"
  "Serial_println_HEX n = emit [SerialLine (hexNumber n)]"
  by (simp_all add: fun_eq_iff Serial_print_def Serial_println_def Serial_println_HEX_def emit_def)

lemma block_apply:
  "block [] s = s"
  "block (f # fs) s = block fs (f s)"
  by (simp_all add: block_def)

lemma emit_emit: "emit es' (emit es s) = emit (es @ es') s"
  by (simp add: emit_def)

lemma if_emit: "(if c then emit es s else s) = emit (if c then es else []) s"
  by (simp add: emit_def)

lemma mask_bit:
  "(v AND 0x80 \<noteq> 0) = bit v 7"
  "(v AND 0x40 \<noteq> 0) = bit v 6"
  "(v AND 0x20 \<noteq> 0) = bit v 5"
  "(v AND 0x10 \<noteq> 0) = bit v 4"
  "(v AND 0x08 \<noteq> 0) = bit v 3"
  for v :: uint8_t
  using and_exp_eq_0_iff_not_bit [of v 7] and_exp_eq_0_iff_not_bit [of v 6]
    and_exp_eq_0_iff_not_bit [of v 5] and_exp_eq_0_iff_not_bit [of v 4]
    and_exp_eq_0_iff_not_bit [of v 3]
  by simp_all


lemmas detail_register_defs =
  RACM600_STATUS_VOUT_def RACM600_STATUS_IOUT_def RACM600_STATUS_INPUT_def
  RACM600_STATUS_TEMPERATURE_def RACM600_STATUS_CML_def

lemmas detail_unfold =
  readDetailedFault_def split_def Let_def block_apply if_stmt_def Serial_emit if_emit
  emit_emit mask_bit detail_report_def detail_bits_def detail_register_defs

lemma readDetailedFault_effect:
  "readDetailedFault reg faultType s =
     emit (detail_report reg faultType (ucast (fst (readCommand reg s)))) (snd (readCommand reg s))"
proof -
  consider "reg = 0x7A" | "reg = 0x7B" | "reg = 0x7C" | "reg = 0x7D" | "reg = 0x7E"
    | "reg \<notin> {0x7A, 0x7B, 0x7C, 0x7D, 0x7E}"
    by blast
  then show ?thesis
  proof cases
    case 1 then show ?thesis by (simp add: detail_unfold)
  next
    case 2 then show ?thesis by (simp add: detail_unfold)
  next
    case 3 then show ?thesis by (simp add: detail_unfold)
  next
    case 4 then show ?thesis by (simp add: detail_unfold)
  next
    case 5 then show ?thesis by (simp add: detail_unfold)
  next
    case 6 then show ?thesis by (simp add: detail_unfold)
  qed
qed

lemma ucast_low_byte:
  "(ucast (ucast (lo :: uint8_t) OR push_bit 8 (ucast (hi :: uint8_t)) :: uint16_t) :: uint8_t) = lo"
  by (rule bit_word_eqI) (auto simp add: bit_simps)

lemma serial_lines_append: "serial_lines (xs @ ys) = serial_lines xs @ serial_lines ys"
  by (induction xs rule: serial_lines.induct) simp_all

lemma serial_lines_map: "serial_lines (map SerialLine ls) = ls"
  by (induction ls) simp_all

text \<open>
  Claim C5.  For every 8-bit value \<open>v\<close> that the \<open>STATUS_VOUT\<close> detail register
  returns (the first byte of the answer), the lines printed by the decoder are the value
  in hexadecimal followed, independently of each other and in this order, by
  "Output Overvoltage Fault" when bit 7 is set, "Output Overvoltage Warning" when bit 6
  is set, "Output Undervoltage Warning" when bit 4 is set and "Output Undervoltage
  Fault" when bit 3 is set.  The value \<open>0x88\<close> gives the overvoltage-fault and the
  undervoltage-fault lines.
\<close>

theorem status_vout_bits:
  assumes "device s = (v # hi # extra) # rest"
  shows "serial_lines (new_events s (readDetailedFault RACM600_STATUS_VOUT faultType s)) =
           hexNumber (unat v)
           # (if bit v 7 then ['' - Output Overvoltage Fault''] else [])
           @ (if bit v 6 then ['' - Output Overvoltage Warning''] else [])
           @ (if bit v 4 then ['' - Output Undervoltage Warning''] else [])
           @ (if bit v 3 then ['' - Output Undervoltage Fault''] else [])"
  using delivered_two [OF assms]
  by (simp add: readDetailedFault_effect readCommand_effect emit_def new_events_def
      ucast_low_byte detail_report_def detail_bits_def serial_lines_append serial_lines_map)

theorem status_vout_bits_witness:
  "device (power_on [[0x88, 0x00]]) = (0x88 # 0x00 # []) # []
   \<and> serial_lines (new_events (power_on [[0x88, 0x00]])
         (readDetailedFault RACM600_STATUS_VOUT ''Output Voltage Fault'' (power_on [[0x88, 0x00]]))) =
       [''88'', '' - Output Overvoltage Fault'', '' - Output Undervoltage Fault'']"
  using status_vout_bits [of "power_on [[0x88, 0x00]]" "0x88" "0x00" "[]" "[]" "''Output Voltage Fault''"]
  by (simp add: power_on_def hexNumber.simps)

text \<open>
  Claim C10.  Every secondary read of a detail register \<open>reg\<close> is a \<open>readCommand\<close>:
  one write of the register's command byte and one read that requests exactly 2 bytes;
  the bitmap that is printed and decoded is the 16-bit word that \<open>readCommand\<close>
  returns, cut down to its low-order 8 bits.  When the device answers with the bytes
  \<open>lo\<close>, \<open>hi\<close>, the word returned is \<open>lo | (hi << 8)\<close> and the bitmap decoded is
  \<open>lo\<close>: the high byte of the answer is dropped.
\<close>

theorem readDetailedFault_truncates:
  "new_events s (readDetailedFault reg faultType s) =
     [BusWrite (address (this s)) [reg] False, BusRead (address (this s)) 2 (delivered 2 s)]
     @ detail_report reg faultType (ucast (fst (readCommand reg s)))
   \<and> (\<forall>lo hi extra rest. device s = (lo # hi # extra) # rest \<longrightarrow>
         delivered 2 s = [lo, hi]
         \<and> fst (readCommand reg s) = ucast lo OR push_bit 8 (ucast hi)
         \<and> (ucast (fst (readCommand reg s)) :: uint8_t) = lo
         \<and> new_events s (readDetailedFault reg faultType s) =
             [BusWrite (address (this s)) [reg] False, BusRead (address (this s)) 2 [lo, hi]]
             @ detail_report reg faultType lo)"
proof (intro conjI allI impI)
  show "new_events s (readDetailedFault reg faultType s) =
     [BusWrite (address (this s)) [reg] False, BusRead (address (this s)) 2 (delivered 2 s)]
     @ detail_report reg faultType (ucast (fst (readCommand reg s)))"
    by (simp add: readDetailedFault_effect emit_def new_events_def)
      (simp add: readCommand_effect)
next
  fix lo hi extra rest
  assume answer: "device s = (lo # hi # extra) # rest"
  show "delivered 2 s = [lo, hi]"
    by (rule delivered_two [OF answer])
  show "fst (readCommand reg s) = ucast lo OR push_bit 8 (ucast hi)"
    using delivered_two [OF answer] by (simp add: readCommand_effect)
  show "(ucast (fst (readCommand reg s)) :: uint8_t) = lo"
    using delivered_two [OF answer] by (simp add: readCommand_effect ucast_low_byte)
  show "new_events s (readDetailedFault reg faultType s) =
             [BusWrite (address (this s)) [reg] False, BusRead (address (this s)) 2 [lo, hi]]
             @ detail_report reg faultType lo"
    using delivered_two [OF answer]
    by (simp add: readDetailedFault_effect readCommand_effect emit_def new_events_def
        ucast_low_byte)
qed

theorem readDetailedFault_truncates_witness:
  "device (power_on [[0xC0, 0xFF]]) = (0xC0 # 0xFF # []) # []
   \<and> new_events (power_on [[0xC0, 0xFF]])
         (readDetailedFault RACM600_STATUS_TEMPERATURE ''Temperature Fault'' (power_on [[0xC0, 0xFF]])) =
       [BusWrite 0x27 [0x7D] False, BusRead 0x27 2 [0xC0, 0xFF],
        SerialOut ''Temperature Fault'', SerialOut '' Details: 0x'', SerialLine ''C0'',
        SerialLine '' - Overtemperature Fault'', SerialLine '' - Overtemperature Warning'']
   \<and> fst (readCommand RACM600_STATUS_TEMPERATURE (power_on [[0xC0, 0xFF]])) = 0xFFC0"
proof -
  have answer: "device (power_on [[0xC0, 0xFF]]) = (0xC0 # 0xFF # []) # []"
    by (simp add: power_on_def)
  from readDetailedFault_truncates [of "power_on [[0xC0, 0xFF]]" RACM600_STATUS_TEMPERATURE
      "''Temperature Fault''"] answer
  have "fst (readCommand RACM600_STATUS_TEMPERATURE (power_on [[0xC0, 0xFF]])) =
          ucast (0xC0 :: uint8_t) OR push_bit 8 (ucast (0xFF :: uint8_t))
        \<and> new_events (power_on [[0xC0, 0xFF]])
            (readDetailedFault RACM600_STATUS_TEMPERATURE ''Temperature Fault''
              (power_on [[0xC0, 0xFF]])) =
            [BusWrite (address (this (power_on [[0xC0, 0xFF]]))) [RACM600_STATUS_TEMPERATURE] False,
             BusRead (address (this (power_on [[0xC0, 0xFF]]))) 2 [0xC0, 0xFF]]
            @ detail_report RACM600_STATUS_TEMPERATURE ''Temperature Fault'' 0xC0"
    by blast
  with answer show ?thesis
    by (simp add: power_on_def RACM600_new_def RACM600_DEFAULT_ADDR_def detail_report_def
        detail_bits_def detail_register_defs hexNumber.simps)
qed

section \<open>Summary status word\<close>

lemma readFaults_table:
  "readFaults s =
     (let st = fst (readCommand RACM600_STATUS_WORD s);
          s3 = emit [SerialOut ''Fault Status: 0x'', SerialLine (hexNumber (unat st))]
                 (snd (readCommand RACM600_STATUS_WORD s))
      in if st = 0 then (st, emit [SerialLine ''No faults detected.''] s3)
         else (st, fold (dispatch st) status_word_table s3))"
proof (cases "fst (readCommand RACM600_STATUS_WORD s) = 0")
  case True
  then show ?thesis
    by (simp add: readFaults_def split_def Let_def Serial_emit emit_emit)
next
  case False
  then show ?thesis
    by (simp add: readFaults_def split_def Let_def status_word_table_def block_def
        Serial_emit emit_emit split del: if_split)
qed


lemma word_reads_append:
  "word_reads xs = Some rs \<Longrightarrow>
     word_reads (xs @ ys) = (case word_reads ys of None \<Rightarrow> None | Some rs' \<Rightarrow> Some (rs @ rs'))"
proof (induction xs arbitrary: rs rule: word_reads.induct)
  case 1
  then show ?case by (simp split: option.splits)
next
  case (4 a reg a' n got es)
  then show ?case
    by (auto split: if_splits option.splits)
qed simp_all

lemma word_reads_serial:
  "word_reads (map SerialLine ls) = Some []"
  by (induction ls) simp_all

lemma word_reads_detail_report: "word_reads (detail_report reg faultType v) = Some []"
  by (simp add: detail_report_def word_reads_serial)

lemma category_lines_append:
  "category_lines (xs @ ys) = category_lines xs @ category_lines ys"
  by (simp add: category_lines_def serial_lines_append)

lemma hexNumber_digits: "set (hexNumber n) \<subseteq> set ''0123456789ABCDEF''"
proof (induction n rule: hexNumber.induct)
  case (1 n)
  have digit: "''0123456789ABCDEF'' ! k \<in> set ''0123456789ABCDEF''" if "k < 16" for k
    using that nth_mem [of k "''0123456789ABCDEF''"] by simp
  show ?case
  proof (cases "n < 16")
    case True
    then show ?thesis
      using digit [of n] by (subst hexNumber.simps) simp
  next
    case False
    have "n mod 16 < 16" by simp
    then show ?thesis
      using False 1 digit [of "n mod 16"] by (subst hexNumber.simps) simp
  qed
qed

lemma is_category_colon: "is_category l \<Longrightarrow> CHR '':'' \<in> set l"
proof -
  assume "is_category l"
  then consider "take 7 l = ''FAULT: ''" | "take 9 l = ''WARNING: ''"
    by (auto simp add: is_category_def)
  then show ?thesis
  proof cases
    case 1
    have "CHR '':'' \<in> set (take 7 l)" unfolding 1 by simp
    then show ?thesis by (rule in_set_takeD)
  next
    case 2
    have "CHR '':'' \<in> set (take 9 l)" unfolding 2 by simp
    then show ?thesis by (rule in_set_takeD)
  qed
qed

lemma hexNumber_not_category: "\<not> is_category (hexNumber n)"
proof
  assume "is_category (hexNumber n)"
  then have "CHR '':'' \<in> set (hexNumber n)" by (rule is_category_colon)
  with hexNumber_digits [of n] show False by auto
qed

lemma detail_bits_not_category: "(n, d) \<in> set (detail_bits reg) \<Longrightarrow> \<not> is_category d"
  by (auto simp add: detail_bits_def is_category_def split: if_splits)

lemma category_lines_detail_report: "category_lines (detail_report reg faultType v) = []"
  by (auto simp add: detail_report_def category_lines_def serial_lines_append serial_lines_map
      hexNumber_not_category filter_empty_conv dest: detail_bits_not_category)


lemma dispatch_step:
  assumes "is_category (fst (snd e))"
  shows "\<exists>es. trace (dispatch st e s) = trace s @ es
            \<and> word_reads es = Some (entry_regs st e)
            \<and> category_lines es = entry_descs st e"
proof -
  obtain msk desc detail where e: "e = (msk, desc, detail)"
    by (cases e) auto
  with assms have cat: "is_category desc" by simp
  show ?thesis
  proof (cases "st AND msk \<noteq> 0")
    case False
    then have "dispatch st e s = s"
      unfolding e by (cases detail) (auto simp add: if_stmt_def)
    with False show ?thesis
      unfolding e by (cases detail) (auto simp add: category_lines_def)
  next
    case True
    show ?thesis
    proof (cases detail)
      case None
      with True cat show ?thesis
        unfolding e by (simp add: if_stmt_def Serial_println_def category_lines_def)
    next
      case (Some p)
      obtain reg faultType where p: "p = (reg, faultType)" by (cases p) auto
      let ?s1 = "emit [SerialLine desc] s"
      let ?es = "SerialLine desc # BusWrite (address (this s)) [reg] False
                 # BusRead (address (this s)) 2 (delivered 2 s)
                 # detail_report reg faultType (ucast (fst (readCommand reg ?s1)))"
      have "trace (dispatch st e s) = trace s @ ?es"
        using True unfolding e Some p
        by (simp add: if_stmt_def block_apply Serial_emit readDetailedFault_effect
            readCommand_effect emit_def)
      moreover have "word_reads ?es = Some (entry_regs st e)"
        using True unfolding e Some p by (simp add: word_reads_detail_report)
      moreover have "category_lines ?es = entry_descs st e"
        using True cat category_lines_detail_report [of reg faultType]
        unfolding e Some p by (simp add: category_lines_def)
      ultimately show ?thesis by blast
    qed
  qed
qed

lemma dispatch_fold:
  assumes "\<forall>e \<in> set tbl. is_category (fst (snd e))"
  shows "\<exists>es. trace (fold (dispatch st) tbl s) = trace s @ es
            \<and> word_reads es = Some (concat (map (entry_regs st) tbl))
            \<and> category_lines es = concat (map (entry_descs st) tbl)"
  using assms
proof (induction tbl arbitrary: s)
  case Nil
  show ?case by (simp add: category_lines_def)
next
  case (Cons e tbl)
  from Cons.prems have "is_category (fst (snd e))" by simp
  from dispatch_step [OF this, of st s] obtain es1 where
    1: "trace (dispatch st e s) = trace s @ es1"
       "word_reads es1 = Some (entry_regs st e)"
       "category_lines es1 = entry_descs st e"
    by blast
  from Cons.prems have "\<forall>e \<in> set tbl. is_category (fst (snd e))" by simp
  from Cons.IH [OF this, of "dispatch st e s"] obtain es2 where
    2: "trace (fold (dispatch st) tbl (dispatch st e s)) = trace (dispatch st e s) @ es2"
       "word_reads es2 = Some (concat (map (entry_regs st) tbl))"
       "category_lines es2 = concat (map (entry_descs st) tbl)"
    by blast
  have "trace (fold (dispatch st) (e # tbl) s) = trace s @ (es1 @ es2)"
    using 1(1) 2(1) by simp
  moreover have "word_reads (es1 @ es2) = Some (concat (map (entry_regs st) (e # tbl)))"
    using word_reads_append [OF 1(2), of es2] 2(2) by simp
  moreover have "category_lines (es1 @ es2) = concat (map (entry_descs st) (e # tbl))"
    using 1(3) 2(3) by (simp add: category_lines_append)
  ultimately show ?case by blast
qed

lemma status_word_table_category:
  "\<forall>e \<in> set status_word_table. is_category (fst (snd e))"
  by (simp add: status_word_table_def is_category_def)


lemma table_regs:
  "concat (map (entry_regs st) status_word_table) =
     [reg. (m, reg) \<leftarrow> detail_fault_bits, st AND m \<noteq> 0]"
  by (simp add: status_word_table_def detail_fault_bits_def split del: if_split)

lemma table_descs:
  "concat (map (entry_descs st) status_word_table) =
     [d. (m, d) \<leftarrow> status_word_descriptions, st AND m \<noteq> 0]"
  by (simp add: status_word_table_def status_word_descriptions_def split del: if_split)

lemma no_faults_not_category: "\<not> is_category ''No faults detected.''"
  by (simp add: is_category_def)

lemma readFaults_projections:
  "word_reads (new_events s (snd (readFaults s))) =
     Some (RACM600_STATUS_WORD
           # [reg. (m, reg) \<leftarrow> detail_fault_bits, fst (readCommand RACM600_STATUS_WORD s) AND m \<noteq> 0])
   \<and> category_lines (new_events s (snd (readFaults s))) =
       [d. (m, d) \<leftarrow> status_word_descriptions, fst (readCommand RACM600_STATUS_WORD s) AND m \<noteq> 0]"
proof -
  let ?st = "fst (readCommand RACM600_STATUS_WORD s)"
  let ?a = "address (this s)"
  let ?head = "[BusWrite ?a [RACM600_STATUS_WORD] False, BusRead ?a 2 (delivered 2 s),
                SerialOut ''Fault Status: 0x'', SerialLine (hexNumber (unat ?st))]"
  show ?thesis
  proof (cases "?st = 0")
    case True
    have "new_events s (snd (readFaults s)) = ?head @ [SerialLine ''No faults detected.'']"
      using True by (simp add: readFaults_table emit_def new_events_def readCommand_effect)
    then show ?thesis
      using True
      by (simp add: category_lines_def hexNumber_not_category no_faults_not_category
          detail_fault_bits_def status_word_descriptions_def)
  next
    case False
    let ?s3 = "emit [SerialOut ''Fault Status: 0x'', SerialLine (hexNumber (unat ?st))]
                 (snd (readCommand RACM600_STATUS_WORD s))"
    from dispatch_fold [OF status_word_table_category, of ?st ?s3] obtain es where
      es: "trace (fold (dispatch ?st) status_word_table ?s3) = trace ?s3 @ es"
          "word_reads es = Some (concat (map (entry_regs ?st) status_word_table))"
          "category_lines es = concat (map (entry_descs ?st) status_word_table)"
      by blast
    have "trace ?s3 = trace s @ ?head"
      by (simp add: emit_def readCommand_effect)
    with es(1) False have "new_events s (snd (readFaults s)) = ?head @ es"
      by (simp add: readFaults_table Let_def new_events_def)
    then show ?thesis
      using es(2,3)
      by (simp add: category_lines_def hexNumber_not_category table_regs table_descs)
  qed
qed


lemma readFaults_returns: "fst (readFaults s) = fst (readCommand RACM600_STATUS_WORD s)"
  by (simp add: readFaults_table Let_def)

lemma readFaults_zero_events:
  assumes "fst (readCommand RACM600_STATUS_WORD s) = 0"
  shows "new_events s (snd (readFaults s)) =
           [BusWrite (address (this s)) [RACM600_STATUS_WORD] False,
            BusRead (address (this s)) 2 (delivered 2 s),
            SerialOut ''Fault Status: 0x'', SerialLine ''0'',
            SerialLine ''No faults detected.'']"
  using assms
  by (simp add: readFaults_table emit_def new_events_def readCommand_effect hexNumber.simps)

lemma readFaults_unassigned_events:
  assumes "fst (readCommand RACM600_STATUS_WORD s) = 0x0400"
  shows "new_events s (snd (readFaults s)) =
           [BusWrite (address (this s)) [RACM600_STATUS_WORD] False,
            BusRead (address (this s)) 2 (delivered 2 s),
            SerialOut ''Fault Status: 0x'', SerialLine ''400'']"
  using assms
  by (simp add: readFaults_table status_word_table_def if_stmt_def emit_def new_events_def
      readCommand_effect hexNumber.simps)

text \<open>
  Claim C1.  For every status word \<open>st\<close> that the summary read returns, the bus traffic
  of \<open>readFaults\<close> consists of word reads only: the summary read of \<open>STATUS_WORD\<close>,
  then exactly one read of the detail register of each set bit among \<open>0x0020\<close>
  (\<open>STATUS_VOUT\<close>), \<open>0x0010\<close> (\<open>STATUS_IOUT\<close>), \<open>0x0008\<close> (\<open>STATUS_INPUT\<close>),
  \<open>0x0004\<close> (\<open>STATUS_TEMPERATURE\<close>), \<open>0x0002\<close> (\<open>STATUS_CML\<close>), whatever the other
  bits are; and the category descriptions printed are exactly those of the set bits among
  the fifteen assigned ones, each bit tested on its own.  So the bits \<open>0x0080\<close>,
  \<open>0x0040\<close>, \<open>0x0001\<close> and the seven warning bits add a description and no read, and
  bit \<open>0x0400\<close> adds nothing: for the status word \<open>0x0400\<close> the only line printed is
  the header value and the only read is the summary read.  The status word \<open>0x0021\<close>
  gives the \<open>STATUS_VOUT\<close> read and both the output-overvoltage and the unknown-fault
  descriptions.
\<close>

theorem readFaults_dispatch:
  "word_reads (new_events s (snd (readFaults s))) =
     Some (RACM600_STATUS_WORD
           # [reg. (m, reg) \<leftarrow> detail_fault_bits, fst (readCommand RACM600_STATUS_WORD s) AND m \<noteq> 0])
   \<and> category_lines (new_events s (snd (readFaults s))) =
       [d. (m, d) \<leftarrow> status_word_descriptions, fst (readCommand RACM600_STATUS_WORD s) AND m \<noteq> 0]
   \<and> (fst (readCommand RACM600_STATUS_WORD s) = 0x0021 \<longrightarrow>
        word_reads (new_events s (snd (readFaults s))) =
          Some [RACM600_STATUS_WORD, RACM600_STATUS_VOUT]
        \<and> category_lines (new_events s (snd (readFaults s))) =
          [''FAULT: Output Overvoltage'', ''FAULT: Unknown Fault''])
   \<and> (fst (readCommand RACM600_STATUS_WORD s) = 0x0400 \<longrightarrow>
        word_reads (new_events s (snd (readFaults s))) = Some [RACM600_STATUS_WORD]
        \<and> serial_lines (new_events s (snd (readFaults s))) = [''400''])"
proof (intro conjI impI)
  show "word_reads (new_events s (snd (readFaults s))) =
     Some (RACM600_STATUS_WORD
           # [reg. (m, reg) \<leftarrow> detail_fault_bits, fst (readCommand RACM600_STATUS_WORD s) AND m \<noteq> 0])"
    using readFaults_projections [of s] by blast
next
  show "category_lines (new_events s (snd (readFaults s))) =
       [d. (m, d) \<leftarrow> status_word_descriptions, fst (readCommand RACM600_STATUS_WORD s) AND m \<noteq> 0]"
    using readFaults_projections [of s] by blast
next
  assume "fst (readCommand RACM600_STATUS_WORD s) = 0x0021"
  then show "word_reads (new_events s (snd (readFaults s))) =
          Some [RACM600_STATUS_WORD, RACM600_STATUS_VOUT]"
    using readFaults_projections [of s] by (simp add: detail_fault_bits_def)
next
  assume "fst (readCommand RACM600_STATUS_WORD s) = 0x0021"
  then show "category_lines (new_events s (snd (readFaults s))) =
          [''FAULT: Output Overvoltage'', ''FAULT: Unknown Fault'']"
    using readFaults_projections [of s] by (simp add: status_word_descriptions_def)
next
  assume "fst (readCommand RACM600_STATUS_WORD s) = 0x0400"
  then show "word_reads (new_events s (snd (readFaults s))) = Some [RACM600_STATUS_WORD]"
    by (simp add: readFaults_unassigned_events)
next
  assume "fst (readCommand RACM600_STATUS_WORD s) = 0x0400"
  then show "serial_lines (new_events s (snd (readFaults s))) = [''400'']"
    by (simp add: readFaults_unassigned_events)
qed

theorem readFaults_dispatch_witness:
  "fst (readCommand RACM600_STATUS_WORD (power_on [[0x21, 0x00], [0x88, 0x00]])) = 0x0021
   \<and> word_reads (new_events (power_on [[0x21, 0x00], [0x88, 0x00]])
        (snd (readFaults (power_on [[0x21, 0x00], [0x88, 0x00]])))) = Some [0x79, 0x7A]
   \<and> category_lines (new_events (power_on [[0x21, 0x00], [0x88, 0x00]])
        (snd (readFaults (power_on [[0x21, 0x00], [0x88, 0x00]])))) =
        [''FAULT: Output Overvoltage'', ''FAULT: Unknown Fault'']
   \<and> fst (readCommand RACM600_STATUS_WORD (power_on [[0x00, 0x04]])) = 0x0400
   \<and> word_reads (new_events (power_on [[0x00, 0x04]])
        (snd (readFaults (power_on [[0x00, 0x04]])))) = Some [0x79]
   \<and> serial_lines (new_events (power_on [[0x00, 0x04]])
        (snd (readFaults (power_on [[0x00, 0x04]])))) = [''400'']"
proof -
  have a: "fst (readCommand RACM600_STATUS_WORD (power_on [[0x21, 0x00], [0x88, 0x00]])) = 0x0021"
    by (simp add: readCommand_effect delivered_def power_on_def)
  have b: "fst (readCommand RACM600_STATUS_WORD (power_on [[0x00, 0x04]])) = 0x0400"
    by (simp add: readCommand_effect delivered_def power_on_def)
  show ?thesis
    using a b readFaults_dispatch [of "power_on [[0x21, 0x00], [0x88, 0x00]]"]
      readFaults_dispatch [of "power_on [[0x00, 0x04]]"]
    by (simp add: RACM600_STATUS_WORD_def RACM600_STATUS_VOUT_def detail_fault_bits_def
        status_word_descriptions_def)
qed

text \<open>
  Claim C3.  \<open>readFaults\<close> returns the status word that the summary read returned,
  whatever bits are set in it: when the device answers with the bytes \<open>lo\<close>, \<open>hi\<close>
  the result is \<open>lo | (hi << 8)\<close>.  When the status word is 0, the call performs the
  summary read and no other bus transaction, prints the header and "No faults
  detected.", and returns.  (\<open>readFaults\<close> is a total function: it returns in every
  state.)
\<close>

theorem readFaults_returns_status:
  "fst (readFaults s) = fst (readCommand RACM600_STATUS_WORD s)
   \<and> (\<forall>lo hi extra rest. device s = (lo # hi # extra) # rest \<longrightarrow>
         fst (readFaults s) = ucast lo OR push_bit 8 (ucast hi))
   \<and> (fst (readCommand RACM600_STATUS_WORD s) = 0 \<longrightarrow>
         new_events s (snd (readFaults s)) =
           [BusWrite (address (this s)) [RACM600_STATUS_WORD] False,
            BusRead (address (this s)) 2 (delivered 2 s),
            SerialOut ''Fault Status: 0x'', SerialLine ''0'',
            SerialLine ''No faults detected.''])"
proof (intro conjI allI impI)
  show "fst (readFaults s) = fst (readCommand RACM600_STATUS_WORD s)"
    by (rule readFaults_returns)
next
  fix lo hi extra rest
  assume "device s = (lo # hi # extra) # rest"
  from delivered_two [OF this] show "fst (readFaults s) = ucast lo OR push_bit 8 (ucast hi)"
    by (simp add: readFaults_returns readCommand_effect)
next
  assume "fst (readCommand RACM600_STATUS_WORD s) = 0"
  then show "new_events s (snd (readFaults s)) =
           [BusWrite (address (this s)) [RACM600_STATUS_WORD] False,
            BusRead (address (this s)) 2 (delivered 2 s),
            SerialOut ''Fault Status: 0x'', SerialLine ''0'',
            SerialLine ''No faults detected.'']"
    by (rule readFaults_zero_events)
qed

theorem readFaults_returns_status_witness:
  "device (power_on [[0x00, 0x00]]) = (0x00 # 0x00 # []) # []
   \<and> fst (readCommand RACM600_STATUS_WORD (power_on [[0x00, 0x00]])) = 0
   \<and> fst (readFaults (power_on [[0x00, 0x00]])) = 0
   \<and> new_events (power_on [[0x00, 0x00]]) (snd (readFaults (power_on [[0x00, 0x00]]))) =
       [BusWrite 0x27 [0x79] False, BusRead 0x27 2 [0x00, 0x00],
        SerialOut ''Fault Status: 0x'', SerialLine ''0'', SerialLine ''No faults detected.'']
   \<and> device (power_on [[0xA5, 0x93], [0x10, 0x00], [0x80, 0x00]]) = (0xA5 # 0x93 # []) # [[0x10, 0x00], [0x80, 0x00]]
   \<and> fst (readFaults (power_on [[0xA5, 0x93], [0x10, 0x00], [0x80, 0x00]])) = 0x93A5"
proof -
  have a: "fst (readCommand RACM600_STATUS_WORD (power_on [[0x00, 0x00]])) = 0"
    by (simp add: readCommand_effect delivered_def power_on_def)
  have b: "fst (readCommand RACM600_STATUS_WORD
               (power_on [[0xA5, 0x93], [0x10, 0x00], [0x80, 0x00]])) = 0x93A5"
    by (simp add: readCommand_effect delivered_def power_on_def)
  show ?thesis
    using a b readFaults_returns_status [of "power_on [[0x00, 0x00]]"]
      readFaults_returns_status [of "power_on [[0xA5, 0x93], [0x10, 0x00], [0x80, 0x00]]"]
    by (simp add: power_on_def delivered_def RACM600_new_def RACM600_DEFAULT_ADDR_def
        RACM600_STATUS_WORD_def)
qed

section \<open>Telemetry\<close>

lemma rne_error: "\<bar>of_int (rne x) - x\<bar> \<le> 1 / 2"
proof -
  have "of_int \<lfloor>x\<rfloor> \<le> x" "x < of_int \<lfloor>x\<rfloor> + 1"
    by linarith+
  then show ?thesis
    by (auto simp add: rne_def Let_def)
qed

lemma rne_of_int: "rne (of_int k) = k"
  by (simp add: rne_def)

lemma rne_le: "x \<le> of_int k \<Longrightarrow> rne x \<le> k"
proof -
  assume le: "x \<le> of_int k"
  then have f: "\<lfloor>x\<rfloor> \<le> k" by (simp add: floor_le_iff)
      show ?thesis
  proof (cases "\<lfloor>x\<rfloor> = k")
    case True
    with le have "x = of_int k"
      by (metis of_int_floor_le order_antisym)
    then show ?thesis by (simp add: rne_of_int)
  next
    case False
    with f have "\<lfloor>x\<rfloor> + 1 \<le> k" by simp
    then show ?thesis by (auto simp add: rne_def Let_def)
  qed
qed

lemma rne_nonneg: "0 \<le> x \<Longrightarrow> 0 \<le> rne x"
  by (auto simp add: rne_def Let_def)

lemma ilog2_bounds:
  assumes "0 < x"
  shows "2 powi ilog2 x \<le> x" and "x < 2 powi (ilog2 x + 1)"
proof -
  have "2 powi ilog2 x \<le> x \<and> x < 2 powi (ilog2 x + 1)"
  proof (cases "1 \<le> x")
    case True
    define n where "n = \<lfloor>x\<rfloor>"
    have n: "0 < n" "of_int n \<le> x" "x < of_int n + 1"
      using True unfolding n_def by linarith+
    from bitlen_bounds [OF n(1)] have
      b: "2 ^ nat (bitlen n - 1) \<le> n" "n < 2 ^ nat (bitlen n)" by auto
    have pos: "1 \<le> bitlen n"
      using n(1) bitlen_eq_zero_iff [of n] bitlen_nonneg [of n] by linarith
    have e: "ilog2 x = bitlen n - 1"
      using True by (simp add: ilog2_def n_def)
    have "(2::rat) powi (bitlen n - 1) = 2 ^ nat (bitlen n - 1)"
      using pos by (simp add: power_int_def)
    also have "\<dots> = of_int (2 ^ nat (bitlen n - 1))" by simp
    also have "\<dots> \<le> of_int n" using b(1) by (simp only: of_int_le_iff)
    finally have lower: "2 powi (bitlen n - 1) \<le> x" using n(2) by linarith
    have "n + 1 \<le> 2 ^ nat (bitlen n)" using b(2) by simp
    then have "(of_int (n + 1) :: rat) \<le> of_int (2 ^ nat (bitlen n))"
      by (simp only: of_int_le_iff)
    then have "x < 2 ^ nat (bitlen n)" using n(3) by simp
    also have "(2::rat) ^ nat (bitlen n) = 2 powi (bitlen n - 1 + 1)"
      using pos by (simp add: power_int_def)
    finally show ?thesis using lower unfolding e by simp
  next
    case False
    with assms have x: "0 < x" "x < 1" by simp_all
    define y where "y = 1 / x"
    define m where "m = \<lceil>y\<rceil> - 1"
    have y: "1 < y" "x = 1 / y" "0 < y" using x by (simp_all add: y_def)
    have m: "of_int m < y" "y \<le> of_int m + 1"
      unfolding m_def by linarith+
    have m1: "0 < m" using y(1) m(2) by linarith
    from bitlen_bounds [OF m1] have
      b: "2 ^ nat (bitlen m - 1) \<le> m" "m < 2 ^ nat (bitlen m)" by auto
    have pos: "1 \<le> bitlen m"
      using m1 bitlen_eq_zero_iff [of m] bitlen_nonneg [of m] by linarith
    have e: "ilog2 x = - bitlen m"
      using False by (simp add: ilog2_def m_def y_def)
    have "m + 1 \<le> 2 ^ nat (bitlen m)" using b(2) by simp
    then have "(of_int (m + 1) :: rat) \<le> of_int (2 ^ nat (bitlen m))"
      by (simp only: of_int_le_iff)
    then have up: "y \<le> 2 ^ nat (bitlen m)" using m(2) by simp
    have "(of_int (2 ^ nat (bitlen m - 1)) :: rat) \<le> of_int m"
      using b(1) by (simp only: of_int_le_iff)
    then have "(2::rat) ^ nat (bitlen m - 1) \<le> of_int m" by simp
    then have lo: "2 ^ nat (bitlen m - 1) < y" using m(1) by (rule le_less_trans)
    have "(2::rat) powi (- bitlen m) = 1 / 2 ^ nat (bitlen m)"
      using pos by (simp add: power_int_def field_simps)
    also have "\<dots> \<le> 1 / y"
      using up y(3) by (simp add: frac_le)
    finally have lower: "2 powi (- bitlen m) \<le> x" using y(2) by simp
    have "1 / y < 1 / 2 ^ nat (bitlen m - 1)"
      using lo by (simp add: frac_less2)
    also have "\<dots> = (2::rat) powi (- bitlen m + 1)"
    proof -
      have "- bitlen m + 1 = - (bitlen m - 1)" by simp
      then show ?thesis using pos by (simp add: power_int_def field_simps)
    qed
    finally show ?thesis using lower y(2) unfolding e by simp
  qed
  then show "2 powi ilog2 x \<le> x" and "x < 2 powi (ilog2 x + 1)" by simp_all
qed

lemma powi2_less_imp: "(2::rat) powi a < 2 powi b \<Longrightarrow> a < b"
  by (rule ccontr) (simp add: not_less power_int_increasing [of b a 2] leD)

lemma ilog2_unique:
  assumes "2 powi e \<le> x" "x < 2 powi (e + 1)"
  shows "ilog2 x = e"
proof -
  have "(0::rat) < 2 powi e" by simp
  with assms(1) have pos: "0 < x" by linarith
  from ilog2_bounds [OF pos] assms have
    "(2::rat) powi e < 2 powi (ilog2 x + 1)" "(2::rat) powi ilog2 x < 2 powi (e + 1)"
    by linarith+
  then have "e < ilog2 x + 1" "ilog2 x < e + 1"
    by (auto dest: powi2_less_imp)
  then show ?thesis by simp
qed

lemma fp_round_normal:
  assumes "2 powi e \<le> x" "x < 2 powi (e + 1)" "emin f \<le> e" "e < emax f"
  shows "fp_round f x =
           Some (of_int (rne (x / 2 powi (e - int (precision f) + 1)))
                 * 2 powi (e - int (precision f) + 1))"
proof -
  let ?q = "e - int (precision f) + 1"
  let ?m = "rne (x / 2 powi ?q)"
  have "(0::rat) < 2 powi e" by simp
  with assms(1) have pos: "0 < x" by linarith
  have e: "ilog2 x = e" by (rule ilog2_unique [OF assms(1,2)])
  have qpos: "(0::rat) < 2 powi ?q" by simp
  have "x / 2 powi ?q < 2 powi (e + 1) / 2 powi ?q"
    using assms(2) qpos by (simp add: divide_strict_right_mono)
  also have "\<dots> = 2 powi ((e + 1) - ?q)"
    by (rule power_int_diff [symmetric]) simp
  also have "(e + 1) - ?q = int (precision f)" by simp
  finally have "x / 2 powi ?q \<le> of_int (2 ^ precision f)" by simp
  then have m_le: "?m \<le> 2 ^ precision f" by (rule rne_le)
  have m_ge: "0 \<le> ?m" using pos by (intro rne_nonneg) simp
  have "of_int ?m * (2::rat) powi ?q \<le> of_int (2 ^ precision f) * 2 powi ?q"
    using m_le qpos by (intro mult_right_mono) (simp_all only: of_int_le_iff less_imp_le)
  also have "\<dots> = 2 powi int (precision f) * 2 powi ?q"
    by simp
  also have "\<dots> = 2 powi (int (precision f) + ?q)"
    by (rule power_int_add [symmetric]) simp
  also have "int (precision f) + ?q = e + 1" by simp
  also have "(2::rat) powi (e + 1) < 2 powi (emax f + 1)"
    using assms(4) by (intro power_int_strict_increasing) simp_all
  finally have small: "of_int ?m * (2::rat) powi ?q < 2 powi (emax f + 1)" .
  have "0 \<le> of_int ?m * (2::rat) powi ?q" using m_ge by simp
  then have abs: "\<bar>of_int ?m * (2::rat) powi ?q\<bar> = of_int ?m * 2 powi ?q" by simp
  have "fp_round f x = (if (2::rat) powi (emax f + 1) \<le> \<bar>of_int ?m * 2 powi ?q\<bar> then None
                        else Some (of_int ?m * 2 powi ?q))"
    using pos e assms(3) by (simp add: fp_round_def Let_def max_def)
  with small abs show ?thesis by simp
qed

lemma fp_round_normal_error:
  assumes "2 powi e \<le> x"
  shows "\<bar>of_int (rne (x / 2 powi (e - int p + 1))) * 2 powi (e - int p + 1) - x\<bar>
           \<le> x * 2 powi (- int p)"
proof -
  let ?q = "e - int p + 1"
  let ?m = "rne (x / 2 powi ?q)"
  have qpos: "(0::rat) < 2 powi ?q" by simp
  have "of_int ?m * (2::rat) powi ?q - x = (of_int ?m - x / 2 powi ?q) * 2 powi ?q"
    using qpos by (simp add: field_simps)
  then have "\<bar>of_int ?m * 2 powi ?q - x\<bar> = \<bar>of_int ?m - x / 2 powi ?q\<bar> * 2 powi ?q"
    using qpos by (simp add: abs_mult)
  also have "\<dots> \<le> 1 / 2 * 2 powi ?q"
    using rne_error [of "x / 2 powi ?q"] qpos by (intro mult_right_mono) simp_all
  also have "\<dots> = 2 powi e * 2 powi (- int p)"
  proof -
    have "(2::rat) powi (e + (- int p) + 1) = 2 powi (e + (- int p)) * 2 powi 1"
      by (rule power_int_add) simp
    also have "(2::rat) powi (e + (- int p)) = 2 powi e * 2 powi (- int p)"
      by (rule power_int_add) simp
    also have "e + (- int p) + 1 = ?q" by simp
    finally show ?thesis by simp
  qed
  also have "\<dots> \<le> x * 2 powi (- int p)"
    using assms by (intro mult_right_mono) simp_all
  finally show ?thesis .
qed

lemma fp_round_in_range:
  assumes "2 powi emin f \<le> x" "x < 2 powi emax f"
  obtains y where "fp_round f x = Some y" "\<bar>y - x\<bar> \<le> x * 2 powi (- int (precision f))"
proof -
  have "(0::rat) < 2 powi emin f" by simp
  with assms(1) have pos: "0 < x" by linarith
  let ?e = "ilog2 x"
  note b = ilog2_bounds [OF pos]
  have "(2::rat) powi emin f < 2 powi (?e + 1)" using assms(1) b(2) by linarith
  then have "emin f < ?e + 1" by (rule powi2_less_imp)
  then have lo: "emin f \<le> ?e" by simp
  have "(2::rat) powi ?e < 2 powi emax f" using assms(2) b(1) by linarith
  then have hi: "?e < emax f" by (rule powi2_less_imp)
  show ?thesis
    using fp_round_normal [OF b lo hi] fp_round_normal_error [OF b(1), of "precision f"]
    by (intro that) simp_all
qed

lemma fp_round_int:
  assumes "0 \<le> n" "n < 2 ^ precision f" "emin f \<le> 0" "int (precision f) \<le> emax f"
  shows "fp_round f (of_int n) = Some (of_int n)"
proof (cases "n = 0")
  case True
  then show ?thesis by (simp add: fp_round_def)
next
  case False
  with assms(1) have n: "1 \<le> n" by simp
  let ?x = "of_int n :: rat"
  have pos: "0 < ?x" using n by simp
  let ?e = "ilog2 ?x"
  note b = ilog2_bounds [OF pos]
  have "(2::rat) powi 0 \<le> ?x" using n by simp
  with b(2) have "(2::rat) powi 0 < 2 powi (?e + 1)" by linarith
  then have "0 < ?e + 1" by (rule powi2_less_imp)
  then have e0: "0 \<le> ?e" by simp
  have "?x < of_int (2 ^ precision f)" using assms(2) by (simp only: of_int_less_iff)
  then have "?x < 2 powi int (precision f)" by simp
  with b(1) have "(2::rat) powi ?e < 2 powi int (precision f)" by linarith
  then have ep: "?e < int (precision f)" by (rule powi2_less_imp)
  define k where "k = nat (int (precision f) - 1 - ?e)"
  have q: "?e - int (precision f) + 1 = - int k" using ep by (simp add: k_def)
  have scaled: "?x / 2 powi (- int k) = of_int (n * 2 ^ k)"
    by (simp add: power_int_minus field_simps)
  have "fp_round f ?x =
          Some (of_int (rne (?x / 2 powi (- int k))) * 2 powi (- int k))"
    using fp_round_normal [OF b, of f] e0 ep assms(3,4) unfolding q by simp
  also have "\<dots> = Some ?x"
    unfolding scaled rne_of_int by (simp add: power_int_minus field_simps)
  finally show ?thesis .
qed

lemma floor_numeral_divide:
  "\<lfloor>numeral a / numeral b :: rat\<rfloor> = numeral a div numeral b"
  using floor_divide_of_int_eq [where ?'a = rat, of "numeral a" "numeral b"] by simp

lemmas rne_eval = rne_def Let_def floor_numeral_divide

lemma fp_round_0_01_binary32: "fp_round binary32 (1 / 100) = Some (5368709 / 536870912)"
  using fp_round_normal [of "- 7" "1 / 100" binary32]
  by (simp add: binary32_def rne_eval)

lemma fp_round_0_01_binary64:
  "fp_round binary64 (1 / 100) = Some (5764607523034235 / 576460752303423488)"
  using fp_round_normal [of "- 7" "1 / 100" binary64]
  by (simp add: binary64_def rne_eval)

lemma fp_round_uint16:
  assumes "16 \<le> precision f" "emin f \<le> 0" "int (precision f) \<le> emax f"
  shows "fp_round f (of_int (uint (raw :: uint16_t))) = Some (of_int (uint raw))"
proof -
  have "uint raw < 2 ^ 16" using uint_bounded [of raw] by simp
  also have "(2::int) ^ 16 \<le> 2 ^ precision f"
    using assms(1) by (intro power_increasing) simp_all
  finally show ?thesis
    using assms(2,3) by (intro fp_round_int) simp_all
qed

lemma times_0_01_eval:
  assumes "fp_round dbl (of_int (uint raw)) = Some a"
    and "fp_round dbl (1 / 100) = Some b"
    and "fp_round dbl (a * b) = Some p"
    and "fp_round binary32 p = Some v"
  shows "times_0_01 dbl raw = Some v"
  using assms by (simp add: times_0_01_def)

lemma times_0_01_bound:
  assumes "24 \<le> precision dbl" "emin dbl \<le> - 126" "127 \<le> emax dbl"
    and "int (precision dbl) \<le> emax dbl"
  obtains v where "times_0_01 dbl raw = Some v"
    and "\<bar>v - of_int (uint raw) / 100\<bar> \<le> of_int (uint raw) / 100 / 2 ^ 22"
proof -
  define r :: rat where "r = of_int (uint raw)"
  have "(of_int 0 :: rat) \<le> of_int (uint raw)"
    by (simp only: of_int_le_iff uint_ge_0)
  then have r0: "0 \<le> r" by (simp add: r_def)
  have "uint raw < 2 ^ 16" using uint_bounded [of raw] by simp
  then have "uint raw \<le> 65535" by simp
  then have "(of_int (uint raw) :: rat) \<le> of_int 65535" by (simp only: of_int_le_iff)
  then have r_hi: "r \<le> 65535" by (simp add: r_def)
  have a: "fp_round dbl (of_int (uint raw)) = Some r"
    unfolding r_def using assms by (intro fp_round_uint16) simp_all
  have u: "(2::rat) powi (- int (precision dbl)) \<le> 1 / 16777216"
  proof -
    have "(2::rat) powi (- int (precision dbl)) \<le> 2 powi (- 24)"
      using assms(1) by (intro power_int_increasing) simp_all
    then show ?thesis by simp
  qed
  have lo: "(2::rat) powi emin dbl \<le> 1 / 2 ^ 126"
  proof -
    have "(2::rat) powi emin dbl \<le> 2 powi (- 126)"
      using assms(2) by (intro power_int_increasing) simp_all
    then show ?thesis by (simp add: power_int_minus_divide)
  qed
  have hi: "(2::rat) ^ 127 \<le> 2 powi emax dbl"
  proof -
    have "(2::rat) powi 127 \<le> 2 powi emax dbl"
      using assms(3) by (intro power_int_increasing) simp_all
    then show ?thesis by simp
  qed
  have "(2::rat) powi emin dbl \<le> 1 / 100" using lo by simp
  moreover have "(1 / 100 :: rat) < 2 powi emax dbl" using hi by simp
  ultimately obtain c where c: "fp_round dbl (1 / 100) = Some c"
    and c_err: "\<bar>c - 1 / 100\<bar> \<le> 1 / 100 * 2 powi (- int (precision dbl))"
    by (rule fp_round_in_range)
  from c_err u have c_err': "\<bar>c - 1 / 100\<bar> \<le> 1 / 100 * (1 / 16777216)"
    by simp
  have zero: "fp_round f 0 = Some 0" for f by (simp add: fp_round_def)
  show ?thesis
  proof (cases "r = 0")
    case True
    have "times_0_01 dbl raw = Some 0"
      using a c True by (simp add: times_0_01_def zero)
    moreover have "\<bar>0 - of_int (uint raw) / 100\<bar> \<le> (of_int (uint raw) / 100 / 2 ^ 22 :: rat)"
      using True by (simp add: r_def)
    ultimately show ?thesis by (rule that)
  next
    case False
    have "uint raw \<noteq> 0"
    proof
      assume "uint raw = 0"
      then have "(of_int (uint raw) :: rat) = of_int 0" by (simp only:)
      with False show False by (simp add: r_def)
    qed
    then have "1 \<le> uint raw" using uint_ge_0 [of raw] by linarith
    then have "(of_int 1 :: rat) \<le> of_int (uint raw)" by (simp only: of_int_le_iff)
    then have r1: "1 \<le> r" by (simp add: r_def)
    define t where "t = r * c"
    have "t - r / 100 = r * (c - 1 / 100)" by (simp add: t_def algebra_simps)
    then have "\<bar>t - r / 100\<bar> = r * \<bar>c - 1 / 100\<bar>"
      using r0 by (simp add: abs_mult)
    also have "\<dots> \<le> r * (1 / 100 * (1 / 16777216))"
      using c_err' r0 by (rule mult_left_mono)
    finally have "\<bar>t - r / 100\<bar> \<le> r / 100 * (1 / 16777216)" by simp
    then have t_err: "r / 100 - r / 100 * (1 / 16777216) \<le> t"
        "t \<le> r / 100 + r / 100 * (1 / 16777216)"
      by linarith+
    have t_lo: "1 / 2 ^ 126 \<le> t" using t_err(1) r1 by simp
    have t_hi: "t < 2 ^ 127" using t_err(2) r_hi r0 by simp
    have t0: "0 \<le> t" using t_err(1) r0 by simp
    have "2 powi emin dbl \<le> t" using lo t_lo by linarith
    moreover have "t < 2 powi emax dbl" using hi t_hi by linarith
    ultimately obtain p where p: "fp_round dbl t = Some p"
      and p_err: "\<bar>p - t\<bar> \<le> t * 2 powi (- int (precision dbl))"
      by (rule fp_round_in_range)
    have "t * 2 powi (- int (precision dbl)) \<le> t * (1 / 16777216)"
      using u t0 by (rule mult_left_mono)
    with p_err have p_err': "t - t * (1 / 16777216) \<le> p" "p \<le> t + t * (1 / 16777216)"
      by linarith+
    have p_lo: "1 / 2 ^ 126 \<le> p" using p_err'(1) t_err(1) r1 by simp
    have p_hi: "p < 2 ^ 127" using p_err'(2) t_err(2) r_hi r0 by simp
    have "2 powi emin binary32 \<le> p"
      using p_lo by (simp add: binary32_def power_int_minus_divide)
    moreover have "p < 2 powi emax binary32"
      using p_hi by (simp add: binary32_def)
    ultimately obtain v where v: "fp_round binary32 p = Some v"
      and v_err: "\<bar>v - p\<bar> \<le> p * 2 powi (- int (precision binary32))"
      by (rule fp_round_in_range)
    from v_err have "\<bar>v - p\<bar> \<le> p * (1 / 16777216)"
      by (simp add: binary32_def)
    then have v_err': "p - p * (1 / 16777216) \<le> v" "v \<le> p + p * (1 / 16777216)"
      by linarith+
    have "times_0_01 dbl raw = Some v"
      using a c p v by (simp add: times_0_01_def t_def)
    moreover have "\<bar>v - r / 100\<bar> \<le> r / 100 / 2 ^ 22"
    proof -
      have "v \<le> r / 100 + r / 100 * (1 / 4194304)"
        using v_err'(2) p_err'(2) t_err(2) r0 by linarith
      moreover have "r / 100 - r / 100 * (1 / 4194304) \<le> v"
        using v_err'(1) p_err'(1) t_err(1) r0 by linarith
      ultimately have "\<bar>v - r / 100\<bar> \<le> r / 100 * (1 / 4194304)"
        by linarith
      then show ?thesis by simp
    qed
    ultimately show ?thesis unfolding r_def by (rule that)
  qed
qed

lemma fp_round_zero: "fp_round f 0 = Some 0"
  by (simp add: fp_round_def)

lemma fp_round_uint16_binary32:
  "fp_round binary32 (of_int (uint (raw :: uint16_t))) = Some (of_int (uint raw))"
  by (rule fp_round_uint16) (simp_all add: binary32_def)

lemma fp_round_uint16_binary64:
  "fp_round binary64 (of_int (uint (raw :: uint16_t))) = Some (of_int (uint raw))"
  by (rule fp_round_uint16) (simp_all add: binary64_def)

lemma times_0_01_0_binary32: "times_0_01 binary32 0 = Some 0"
  using fp_round_uint16_binary32 [of 0]
  by (simp add: times_0_01_def fp_round_0_01_binary32 fp_round_zero)

lemma times_0_01_0_binary64: "times_0_01 binary64 0 = Some 0"
  using fp_round_uint16_binary64 [of 0]
  by (simp add: times_0_01_def fp_round_0_01_binary64 fp_round_zero)

lemma times_0_01_100_binary32: "times_0_01 binary32 100 = Some 1"
proof (rule times_0_01_eval)
  show "fp_round binary32 (of_int (uint (100 :: uint16_t))) = Some 100"
    using fp_round_uint16_binary32 [of 100] by simp
  show "fp_round binary32 (1 / 100) = Some (5368709 / 536870912)"
    by (rule fp_round_0_01_binary32)
  show "fp_round binary32 (100 * (5368709 / 536870912)) = Some 1"
    using fp_round_normal [of "- 1" "100 * (5368709 / 536870912)" binary32]
    by (simp add: binary32_def rne_eval)
  show "fp_round binary32 1 = Some 1"
    using fp_round_normal [of 0 1 binary32] by (simp add: binary32_def rne_eval)
qed

lemma times_0_01_100_binary64: "times_0_01 binary64 100 = Some 1"
proof (rule times_0_01_eval)
  show "fp_round binary64 (of_int (uint (100 :: uint16_t))) = Some 100"
    using fp_round_uint16_binary64 [of 100] by simp
  show "fp_round binary64 (1 / 100) = Some (5764607523034235 / 576460752303423488)"
    by (rule fp_round_0_01_binary64)
  show "fp_round binary64 (100 * (5764607523034235 / 576460752303423488)) = Some 1"
    using fp_round_normal [of 0 "100 * (5764607523034235 / 576460752303423488)" binary64]
    by (simp add: binary64_def rne_eval)
  show "fp_round binary32 1 = Some 1"
    using fp_round_normal [of 0 1 binary32] by (simp add: binary32_def rne_eval)
qed

lemma times_0_01_65535_binary32: "times_0_01 binary32 65535 = Some (5368627 / 8192)"
proof (rule times_0_01_eval)
  show "fp_round binary32 (of_int (uint (65535 :: uint16_t))) = Some 65535"
    using fp_round_uint16_binary32 [of 65535] by simp
  show "fp_round binary32 (1 / 100) = Some (5368709 / 536870912)"
    by (rule fp_round_0_01_binary32)
  show "fp_round binary32 (65535 * (5368709 / 536870912)) = Some (5368627 / 8192)"
    using fp_round_normal [of 9 "65535 * (5368709 / 536870912)" binary32]
    by (simp add: binary32_def rne_eval)
  show "fp_round binary32 (5368627 / 8192) = Some (5368627 / 8192)"
    using fp_round_normal [of 9 "5368627 / 8192" binary32]
    by (simp add: binary32_def rne_eval)
qed

lemma times_0_01_65535_binary64: "times_0_01 binary64 65535 = Some (5368627 / 8192)"
proof (rule times_0_01_eval)
  show "fp_round binary64 (of_int (uint (65535 :: uint16_t))) = Some 65535"
    using fp_round_uint16_binary64 [of 65535] by simp
  show "fp_round binary64 (1 / 100) = Some (5764607523034235 / 576460752303423488)"
    by (rule fp_round_0_01_binary64)
  show "fp_round binary64 (65535 * (5764607523034235 / 576460752303423488))
          = Some (5764519562104013 / 8796093022208)"
    using fp_round_normal [of 9 "65535 * (5764607523034235 / 576460752303423488)" binary64]
    by (simp add: binary64_def rne_eval)
  show "fp_round binary32 (5764519562104013 / 8796093022208) = Some (5368627 / 8192)"
    using fp_round_normal [of 9 "5764519562104013 / 8796093022208" binary32]
    by (simp add: binary32_def rne_eval)
qed

lemma times_0_01_points:
  assumes "dbl = binary32 \<or> dbl = binary64"
  shows "times_0_01 dbl 0 = Some 0" "times_0_01 dbl 100 = Some 1"
    "times_0_01 dbl 65535 = Some (5368627 / 8192)"
  using assms
  by (auto simp add: times_0_01_0_binary32 times_0_01_0_binary64 times_0_01_100_binary32
      times_0_01_100_binary64 times_0_01_65535_binary32 times_0_01_65535_binary64)

lemma times_0_01_close:
  assumes "dbl = binary32 \<or> dbl = binary64"
  shows "\<exists>v. times_0_01 dbl raw = Some v
           \<and> \<bar>v - of_int (uint raw) / 100\<bar> \<le> of_int (uint raw) / 100 / 2 ^ 22"
proof -
  from assms have "24 \<le> precision dbl" "emin dbl \<le> - 126" "127 \<le> emax dbl"
    "int (precision dbl) \<le> emax dbl"
    by (auto simp add: binary32_def binary64_def)
  then show ?thesis
    by (rule times_0_01_bound [of dbl raw]) blast
qed

text \<open>
  Claim C8, as amended.  Let \<open>double\<close> be \<open>binary32\<close> or \<open>binary64\<close>.  For every raw
  word that the register read returns, \<open>readVoltage\<close> and \<open>readCurrent\<close> return a
  finite \<open>float\<close> within the relative error \<open>2 ^ - 22\<close> of \<open>raw / 100\<close>; it is
  \<open>raw / 100\<close> exactly for the raw words 0 and 100, and for the raw word 65535 it is
  \<open>5368627 / 8192 = 655.3499755859375\<close>.  \<open>readAmbientTemperature\<close> and
  \<open>readACINPUTTemperature\<close> return the raw word unscaled.  Each of the four functions
  performs the one register read and nothing else.
\<close>

theorem telemetry_scaling:
  assumes "dbl = binary32 \<or> dbl = binary64"
  shows "(\<exists>v. fst (readVoltage dbl s) = Some v
            \<and> \<bar>v - of_int (uint (fst (readCommand RACM600_READ_VOUT s))) / 100\<bar>
                \<le> of_int (uint (fst (readCommand RACM600_READ_VOUT s))) / 100 / 2 ^ 22)
       \<and> (\<exists>v. fst (readCurrent dbl s) = Some v
            \<and> \<bar>v - of_int (uint (fst (readCommand RACM600_READ_IOUT s))) / 100\<bar>
                \<le> of_int (uint (fst (readCommand RACM600_READ_IOUT s))) / 100 / 2 ^ 22)
       \<and> (fst (readCommand RACM600_READ_VOUT s) = 0 \<longrightarrow> fst (readVoltage dbl s) = Some 0)
       \<and> (fst (readCommand RACM600_READ_VOUT s) = 100 \<longrightarrow> fst (readVoltage dbl s) = Some 1)
       \<and> (fst (readCommand RACM600_READ_VOUT s) = 65535 \<longrightarrow>
            fst (readVoltage dbl s) = Some (5368627 / 8192))
       \<and> (fst (readCommand RACM600_READ_IOUT s) = 0 \<longrightarrow> fst (readCurrent dbl s) = Some 0)
       \<and> (fst (readCommand RACM600_READ_IOUT s) = 100 \<longrightarrow> fst (readCurrent dbl s) = Some 1)
       \<and> (fst (readCommand RACM600_READ_IOUT s) = 65535 \<longrightarrow>
            fst (readCurrent dbl s) = Some (5368627 / 8192))
       \<and> fst (readAmbientTemperature s) =
            Some (of_int (uint (fst (readCommand RACM600_READ_TEMPERATURE_1 s))))
       \<and> fst (readACINPUTTemperature s) =
            Some (of_int (uint (fst (readCommand RACM600_READ_TEMPERATURE_2 s))))
       \<and> snd (readVoltage dbl s) = snd (readCommand RACM600_READ_VOUT s)
       \<and> snd (readCurrent dbl s) = snd (readCommand RACM600_READ_IOUT s)
       \<and> snd (readAmbientTemperature s) = snd (readCommand RACM600_READ_TEMPERATURE_1 s)
       \<and> snd (readACINPUTTemperature s) = snd (readCommand RACM600_READ_TEMPERATURE_2 s)"
proof -
  have v: "fst (readVoltage dbl s) = times_0_01 dbl (fst (readCommand RACM600_READ_VOUT s))"
    by (simp add: readVoltage_def split_def Let_def)
  have i: "fst (readCurrent dbl s) = times_0_01 dbl (fst (readCommand RACM600_READ_IOUT s))"
    by (simp add: readCurrent_def split_def Let_def)
  have t1: "fst (readAmbientTemperature s) =
            Some (of_int (uint (fst (readCommand RACM600_READ_TEMPERATURE_1 s))))"
    unfolding readAmbientTemperature_def split_def Let_def fst_conv
    by (rule fp_round_uint16_binary32)
  have t2: "fst (readACINPUTTemperature s) =
            Some (of_int (uint (fst (readCommand RACM600_READ_TEMPERATURE_2 s))))"
    unfolding readACINPUTTemperature_def split_def Let_def fst_conv
    by (rule fp_round_uint16_binary32)
  have s: "snd (readVoltage dbl s) = snd (readCommand RACM600_READ_VOUT s)"
    "snd (readCurrent dbl s) = snd (readCommand RACM600_READ_IOUT s)"
    "snd (readAmbientTemperature s) = snd (readCommand RACM600_READ_TEMPERATURE_1 s)"
    "snd (readACINPUTTemperature s) = snd (readCommand RACM600_READ_TEMPERATURE_2 s)"
    by (simp_all add: readVoltage_def readCurrent_def readAmbientTemperature_def
        readACINPUTTemperature_def split_def Let_def)
  show ?thesis
    unfolding v i
    using times_0_01_close [OF assms] times_0_01_points [OF assms] t1 t2 s
    by (intro conjI impI) (simp_all only:)
qed

theorem telemetry_scaling_witness:
  "(binary64 = binary32 \<or> binary64 = binary64)
   \<and> fst (readCommand RACM600_READ_VOUT (power_on [[0x00, 0x00]])) = 0
   \<and> fst (readVoltage binary64 (power_on [[0x00, 0x00]])) = Some 0
   \<and> fst (readCommand RACM600_READ_VOUT (power_on [[0x64, 0x00]])) = 100
   \<and> fst (readVoltage binary64 (power_on [[0x64, 0x00]])) = Some 1
   \<and> fst (readCommand RACM600_READ_VOUT (power_on [[0xFF, 0xFF]])) = 65535
   \<and> fst (readVoltage binary64 (power_on [[0xFF, 0xFF]])) = Some (5368627 / 8192)
   \<and> fst (readCommand RACM600_READ_IOUT (power_on [[0x00, 0x00]])) = 0
   \<and> fst (readCurrent binary64 (power_on [[0x00, 0x00]])) = Some 0
   \<and> fst (readCommand RACM600_READ_IOUT (power_on [[0x64, 0x00]])) = 100
   \<and> fst (readCurrent binary64 (power_on [[0x64, 0x00]])) = Some 1
   \<and> fst (readCommand RACM600_READ_IOUT (power_on [[0xFF, 0xFF]])) = 65535
   \<and> fst (readCurrent binary64 (power_on [[0xFF, 0xFF]])) = Some (5368627 / 8192)
   \<and> fst (readAmbientTemperature (power_on [[0x19, 0x00]])) = Some 25"
proof -
  have fmt: "binary64 = binary32 \<or> binary64 = binary64" by simp
  have r: "fst (readCommand cmd (power_on [[0x00, 0x00]])) = 0"
    "fst (readCommand cmd (power_on [[0x64, 0x00]])) = 100"
    "fst (readCommand cmd (power_on [[0xFF, 0xFF]])) = 65535"
    "fst (readCommand cmd (power_on [[0x19, 0x00]])) = 25" for cmd
    by (simp_all add: readCommand_effect delivered_def power_on_def)
  note a = telemetry_scaling [OF fmt, of "power_on [[0x00, 0x00]]"]
  note b = telemetry_scaling [OF fmt, of "power_on [[0x64, 0x00]]"]
  note c = telemetry_scaling [OF fmt, of "power_on [[0xFF, 0xFF]]"]
  note d = telemetry_scaling [OF fmt, of "power_on [[0x19, 0x00]]"]
  show ?thesis
    using a b c d by (simp add: r)
qed

text \<open>
  Claim C8 as stated fails: for the raw word 65535 the voltage returned is not
  \<open>65535 * 0.01\<close>, whichever of the two formats \<open>double\<close> has.
\<close>

theorem readVoltage_not_exact:
  "fst (readVoltage binary64 (power_on [[0xFF, 0xFF]])) \<noteq> Some (65535 * (1 / 100))
   \<and> fst (readVoltage binary32 (power_on [[0xFF, 0xFF]])) \<noteq> Some (65535 * (1 / 100))"
proof -
  have "fst (readCommand cmd (power_on [[0xFF, 0xFF]])) = 65535" for cmd
    by (simp add: readCommand_effect delivered_def power_on_def)
  then show ?thesis
    by (simp add: readVoltage_def split_def Let_def times_0_01_65535_binary32 times_0_01_65535_binary64)
qed

end
